theory Spec2Isabelle
  imports Main "HOL-Library.Word" "HOL-Library.AList"
begin

section \<open>Jingle file-transfer negotiation and in-band bytestreams\<close>

text \<open>
  A shallow embedding of \<^verbatim>\<open>src/xmpp/jingle.c\<close> and \<^verbatim>\<open>src/xmpp/ibb.c\<close>.
  Handlers are state transformers on a record holding the two process-wide hash tables,
  the stanzas handed to \<^verbatim>\<open>iq_send_stanza\<close> and the streams closed so far. A NULL
  pointer handed to a routine that dereferences it is the error value
  \<open>Inl NullDereference\<close>, a read through a pointer to freed memory is
  \<open>Inl UseAfterFree\<close>; a loop that never leaves an iteration is the value \<open>None\<close>
  of a function in the option monad. Console and log output is not part of the model.
\<close>

subsection \<open>Stanzas, as the handlers see them through libstrophe\<close>

text \<open>
  A stanza is a text node or a tag with an optional name (a fresh \<^verbatim>\<open>xmpp_stanza_new\<close>
  has none), attributes and children. The sibling chain walked with
  \<^verbatim>\<open>xmpp_stanza_get_children\<close> and \<^verbatim>\<open>xmpp_stanza_get_next\<close> is the list of children.
  Attributes are listed in the order they were first set; libstrophe keeps them in a
  hash table, and their order carries no meaning.
\<close>

datatype stanza = Text string | Tag "string option" "(string \<times> string) list" "stanza list"

definition xmpp_stanza_new :: stanza where
  "xmpp_stanza_new = Tag None [] []"

fun xmpp_stanza_get_name :: "stanza \<Rightarrow> string option" where
  "xmpp_stanza_get_name (Text d) = None"
| "xmpp_stanza_get_name (Tag n ats cs) = n"

fun xmpp_stanza_get_attribute :: "stanza \<Rightarrow> string \<Rightarrow> string option" where
  "xmpp_stanza_get_attribute (Text d) a = None"
| "xmpp_stanza_get_attribute (Tag n ats cs) a = map_of ats a"

fun xmpp_stanza_get_children :: "stanza \<Rightarrow> stanza list" where
  "xmpp_stanza_get_children (Text d) = []"
| "xmpp_stanza_get_children (Tag n ats cs) = cs"

fun xmpp_stanza_set_name :: "stanza \<Rightarrow> string \<Rightarrow> stanza" where
  "xmpp_stanza_set_name (Text d) n = Text d"
| "xmpp_stanza_set_name (Tag n0 ats cs) n = Tag (Some n) ats cs"

fun xmpp_stanza_set_attribute :: "stanza \<Rightarrow> string \<Rightarrow> string \<Rightarrow> stanza" where
  "xmpp_stanza_set_attribute (Text d) k v = Text d"
| "xmpp_stanza_set_attribute (Tag n ats cs) k v = Tag n (AList.update k v ats) cs"

fun xmpp_stanza_add_child :: "stanza \<Rightarrow> stanza \<Rightarrow> stanza" where
  "xmpp_stanza_add_child (Text d) c = Text d"
| "xmpp_stanza_add_child (Tag n ats cs) c = Tag n ats (cs @ [c])"

definition xmpp_stanza_get_ns :: "stanza \<Rightarrow> string option" where
  "xmpp_stanza_get_ns s = xmpp_stanza_get_attribute s ''xmlns''"

definition xmpp_stanza_set_ns :: "stanza \<Rightarrow> string \<Rightarrow> stanza" where
  "xmpp_stanza_set_ns s ns = xmpp_stanza_set_attribute s ''xmlns'' ns"

definition xmpp_stanza_get_id :: "stanza \<Rightarrow> string option" where
  "xmpp_stanza_get_id s = xmpp_stanza_get_attribute s ''id''"

definition xmpp_stanza_get_from :: "stanza \<Rightarrow> string option" where
  "xmpp_stanza_get_from s = xmpp_stanza_get_attribute s ''from''"

definition xmpp_stanza_set_to :: "stanza \<Rightarrow> string \<Rightarrow> stanza" where
  "xmpp_stanza_set_to s t = xmpp_stanza_set_attribute s ''to'' t"

definition xmpp_stanza_set_type :: "stanza \<Rightarrow> string \<Rightarrow> stanza" where
  "xmpp_stanza_set_type s t = xmpp_stanza_set_attribute s ''type'' t"

definition xmpp_stanza_get_child_by_name :: "stanza \<Rightarrow> string \<Rightarrow> stanza option" where
  "xmpp_stanza_get_child_by_name s n =
     find (\<lambda>c. xmpp_stanza_get_name c = Some n) (xmpp_stanza_get_children s)"

definition xmpp_stanza_get_child_by_ns :: "stanza \<Rightarrow> string \<Rightarrow> stanza option" where
  "xmpp_stanza_get_child_by_ns s ns =
     find (\<lambda>c. xmpp_stanza_get_ns c = Some ns) (xmpp_stanza_get_children s)"

definition xmpp_stanza_get_child_by_name_and_ns :: "stanza \<Rightarrow> string \<Rightarrow> string \<Rightarrow> stanza option" where
  "xmpp_stanza_get_child_by_name_and_ns s n ns =
     find (\<lambda>c. xmpp_stanza_get_name c = Some n \<and> xmpp_stanza_get_ns c = Some ns)
       (xmpp_stanza_get_children s)"

fun text_data :: "stanza \<Rightarrow> string" where
  "text_data (Text d) = d"
| "text_data (Tag n ats cs) = []"

text \<open>
  \<^verbatim>\<open>xmpp_stanza_get_text\<close>: the data of a text node; for a tag, the concatenated data of
  its text children, and NULL when that is empty.
\<close>

fun xmpp_stanza_get_text :: "stanza \<Rightarrow> string option" where
  "xmpp_stanza_get_text (Text d) = Some d"
| "xmpp_stanza_get_text (Tag n ats cs) =
     (let t = concat (map text_data cs) in if t = [] then None else Some t)"

text \<open>\<^verbatim>\<open>xmpp_iq_new(ctx, type, id)\<close>: the id attribute is set only when id is not NULL.\<close>

definition xmpp_iq_new :: "string \<Rightarrow> string option \<Rightarrow> stanza" where
  "xmpp_iq_new ty iq_id =
     (let iq = xmpp_stanza_set_type (xmpp_stanza_set_name xmpp_stanza_new ''iq'') ty
      in case iq_id of None \<Rightarrow> iq | Some i \<Rightarrow> xmpp_stanza_set_attribute iq ''id'' i)"

subsection \<open>Namespaces, stanza types and names\<close>

text \<open>
  Modelled from the spec: the macros of \<^verbatim>\<open>xmpp/stanza.h\<close> and of libstrophe for
  namespaces, stanza types and the name of the error element; the header is not among
  the source files. The values are those of section 6 of the specification and of the
  XEPs it names.
\<close>

definition STANZA_TYPE_SET :: string where
  "STANZA_TYPE_SET = ''set''"

definition STANZA_TYPE_RESULT :: string where
  "STANZA_TYPE_RESULT = ''result''"

definition STANZA_TYPE_ERROR :: string where
  "STANZA_TYPE_ERROR = ''error''"

definition STANZA_NAME_ERROR :: string where
  "STANZA_NAME_ERROR = ''error''"

definition STANZA_NS_JINGLE :: string where
  "STANZA_NS_JINGLE = ''urn:xmpp:jingle:1''"

definition STANZA_NS_JINGLE_FT5 :: string where
  "STANZA_NS_JINGLE_FT5 = ''urn:xmpp:jingle:apps:file-transfer:5''"

definition STANZA_NS_JINGLE_RTP :: string where
  "STANZA_NS_JINGLE_RTP = ''urn:xmpp:jingle:apps:rtp:1''"

definition STANZA_NS_JINGLE_TRANSPORTS_IBB :: string where
  "STANZA_NS_JINGLE_TRANSPORTS_IBB = ''urn:xmpp:jingle:transports:ibb:1''"

definition STANZA_NS_JINGLE_TRANSPORTS_S5B :: string where
  "STANZA_NS_JINGLE_TRANSPORTS_S5B = ''urn:xmpp:jingle:transports:s5b:1''"

definition STANZA_NS_IBB :: string where
  "STANZA_NS_IBB = ''http://jabber.org/protocol/ibb''"

definition XMPP_FEATURE_IBB :: string where
  "XMPP_FEATURE_IBB = ''http://jabber.org/protocol/ibb''"

definition XMPP_NS_STANZAS_IETF :: string where
  "XMPP_NS_STANZAS_IETF = ''urn:ietf:params:xml:ns:xmpp-stanzas''"

subsection \<open>The C library routines the handlers call\<close>

definition isspace :: "char \<Rightarrow> bool" where
  "isspace c \<longleftrightarrow> (of_char c :: nat) = 32 \<or> (9 \<le> (of_char c :: nat) \<and> (of_char c :: nat) \<le> 13)"

definition isdigit :: "char \<Rightarrow> bool" where
  "isdigit c \<longleftrightarrow> 48 \<le> (of_char c :: nat) \<and> (of_char c :: nat) \<le> 57"

fun digits_value :: "nat \<Rightarrow> string \<Rightarrow> nat" where
  "digits_value acc [] = acc"
| "digits_value acc (c # cs) = digits_value (acc * 10 + (of_char c - 48)) cs"

definition LONG_MAX :: int where
  "LONG_MAX = 2 ^ 63 - 1"

definition LONG_MIN :: int where
  "LONG_MIN = - (2 ^ 63)"

text \<open>
  \<^verbatim>\<open>strtol(str, &endptr, 10)\<close> on a 64-bit \<^verbatim>\<open>long\<close>: white space, an optional sign, then
  digits. The result is the value, the rest of the string at \<^verbatim>\<open>endptr\<close> and whether
  \<^verbatim>\<open>errno\<close> was set to ERANGE. With no digit at all the value is 0, \<^verbatim>\<open>endptr\<close> is the
  start of the string and \<^verbatim>\<open>errno\<close> is left alone.
\<close>

definition strtol :: "string \<Rightarrow> int \<times> string \<times> bool" where
  "strtol str =
     (let s1 = dropWhile isspace str;
          neg = (s1 \<noteq> [] \<and> hd s1 = CHR ''-'');
          s2 = (if s1 \<noteq> [] \<and> (hd s1 = CHR ''-'' \<or> hd s1 = CHR ''+'') then tl s1 else s1);
          ds = takeWhile isdigit s2;
          rest = dropWhile isdigit s2;
          v = (if neg then - int (digits_value 0 ds) else int (digits_value 0 ds))
      in if ds = [] then (0, str, False)
         else if v > LONG_MAX then (LONG_MAX, rest, True)
         else if v < LONG_MIN then (LONG_MIN, rest, True)
         else (v, rest, False))"

text \<open>
  \<^verbatim>\<open>uint transport_block_size = atoi(raw)\<close>: the \<^verbatim>\<open>long\<close> of \<^verbatim>\<open>strtol\<close> cut to
  \<^verbatim>\<open>int\<close> and converted to the 32-bit \<^verbatim>\<open>uint\<close>, which keeps the low 32 bits.
\<close>

definition atoi_uint :: "string \<Rightarrow> 32 word" where
  "atoi_uint str = word_of_int (fst (strtol str))"

fun string_of_nat :: "nat \<Rightarrow> string" where
  "string_of_nat n =
     (if n < 10 then [''0123456789'' ! n]
      else string_of_nat (n div 10) @ [''0123456789'' ! (n mod 10)])"

declare string_of_nat.simps [simp del]

text \<open>\<^verbatim>\<open>snprintf\<close> and \<^verbatim>\<open>g_strdup_printf\<close> with the format \<^verbatim>\<open>%u\<close>.\<close>

definition printf_u :: "32 word \<Rightarrow> string" where
  "printf_u w = string_of_nat (unat w)"

type_synonym byte = "8 word"

text \<open>
  \<^verbatim>\<open>fprintf(stream, "%.*s", precision, data)\<close>: at most \<^verbatim>\<open>precision\<close> bytes of the
  string, which ends at its first NUL; a negative precision counts as none given. The
  buffer of \<^verbatim>\<open>g_base64_decode\<close> is zero-filled behind the decoded bytes, so the string
  ends there at the latest.
\<close>

definition fprintf_precision_s :: "int \<Rightarrow> byte list \<Rightarrow> byte list" where
  "fprintf_precision_s precision data =
     takeWhile (\<lambda>b. b \<noteq> 0) (if precision < 0 then data else take (nat precision) data)"

text \<open>The cast \<^verbatim>\<open>(int)data_size\<close> of a \<^verbatim>\<open>gsize\<close>.\<close>

definition int_of_gsize :: "nat \<Rightarrow> int" where
  "int_of_gsize n = sint (word_of_nat n :: 32 word)"

subsection \<open>Data model\<close>

datatype error = NullDereference | UseAfterFree

text \<open>
  The enumerations and structures of \<^verbatim>\<open>xmpp/jingle.h\<close>, with the enumerators and
  fields the two source files use. A \<^verbatim>\<open>char*\<close> that may be NULL is a \<open>string option\<close>.
\<close>

datatype prof_jingle_creator_t =
  PROF_JINGLE_CREATOR_INITIATOR | PROF_JINGLE_CREATOR_RESPONDER | PROF_JINGLE_CREATOR_UNKNOWN

datatype prof_jingle_senders_t =
  PROF_JINGLE_SENDERS_BOTH | PROF_JINGLE_SENDERS_INITIATOR | PROF_JINGLE_SENDERS_RESPONDER
  | PROF_JINGLE_SENDERS_NONE | PROF_JINGLE_SENDERS_UNKNOWN

datatype prof_jingle_state_t =
  PROF_JINGLE_STATE_INITIATED | PROF_JINGLE_STATE_ACCEPTED | PROF_JINGLE_STATE_TRANSFER_FINISHED

datatype prof_jingle_description_type_t =
  PROF_JINGLE_DESCRIPTION_TYPE_FILETRANSFER | PROF_JINGLE_DESCRIPTION_TYPE_RTP

datatype prof_jingle_transport_type_t =
  PROF_JINGLE_TRANSPORT_TYPE_INBANDBYTESTREAM | PROF_JINGLE_TRANSPORT_TYPE_SOCKS5

record prof_jingle_file_info_t =
  file_type :: "string option"
  file_date :: "string option"
  file_name :: "string option"
  file_size :: "string option"
  file_hash :: "string option"

record prof_jingle_description_t =
  description_type :: prof_jingle_description_type_t
  description :: prof_jingle_file_info_t

record prof_jingle_transport_t =
  transport_type :: prof_jingle_transport_type_t
  transport_sid :: string
  blocksize :: "32 word"

text \<open>
  Every content the code builds has a description and a transport (lines 340 to 370 of
  \<^verbatim>\<open>jingle.c\<close>), so the two pointers are plain fields. \<open>content_state\<close> is never
  assigned when the content is built: it starts with whatever \<^verbatim>\<open>malloc\<close> returned.
\<close>

record prof_jingle_content_t =
  content_name :: string
  creator :: prof_jingle_creator_t
  senders :: prof_jingle_senders_t
  content_description :: prof_jingle_description_t
  content_transport :: prof_jingle_transport_t
  content_state :: prof_jingle_state_t

text \<open>
  A \<^verbatim>\<open>GHashTable\<close> keyed by strings is an association list with distinct keys.
  \<^verbatim>\<open>g_hash_table_insert\<close> is \<open>AList.update\<close> (an existing key keeps its place and gets
  the new value, the old value going to the destroy function), \<^verbatim>\<open>g_hash_table_lookup\<close>
  is \<open>map_of\<close>, \<^verbatim>\<open>g_hash_table_remove\<close> is \<open>AList.delete\<close>. GLib leaves the order of
  iteration open; the list fixes one.
\<close>

record prof_jingle_session_t =
  jingle_sid :: string
  initiator :: string
  session_state :: prof_jingle_state_t
  content_table :: "(string \<times> prof_jingle_content_t) list"

text \<open>A \<^verbatim>\<open>FILE*\<close> opened with mode \<^verbatim>\<open>wb\<close>: its path and the bytes written so far.\<close>

record FILE =
  path :: string
  written :: "byte list"

text \<open>
  \<^verbatim>\<open>ibb_session_t\<close>. The \<open>file\<close> pointer is borrowed: \<^verbatim>\<open>_on_bytestream_open\<close> stores the
  address of the file info that a content of a Jingle session owns (\<^verbatim>\<open>ibb.c\<close> line 177),
  and nothing tells the transfer when that content is destroyed. The model names the
  address by its owner: the key of the session in the table of sessions and the name of
  the content in the content table of the session, where every content is stored under
  its own name (\<^verbatim>\<open>jingle.c\<close> lines 366 and 372). Once the owner was destroyed the pointer
  is \<open>Freed\<close> if the info was freed with it, and \<open>Orphan\<close> with the info if the info was
  left allocated.
\<close>

datatype file_pointer = Borrowed string string | Orphan prof_jingle_file_info_t | Freed

record ibb_session_t =
  ibb_file :: file_pointer
  seq :: "16 word"
  stream :: "FILE option"

record state =
  jingle_sessions :: "(string \<times> prof_jingle_session_t) list"
  ibb_sessions :: "(string \<times> ibb_session_t) list"
  sent :: "stanza list"
  closed :: "FILE list"

text \<open>
  What the handlers take from outside the two files: GLib's base64 decoder,
  \<^verbatim>\<open>string_to_ul\<close> of \<^verbatim>\<open>common.c\<close>, the download directory with its creation and
  the unique file name, whether \<^verbatim>\<open>fopen\<close> succeeds, the connection's fresh stanza id and
  bare JID, and the value an unassigned \<open>content_state\<close> happens to hold.
\<close>

record env =
  g_base64_decode :: "string option \<Rightarrow> byte list option"
  string_to_ul :: "string option \<Rightarrow> nat option"
  files_get_data_path :: string
  g_mkdir_with_parents :: "string \<Rightarrow> bool"
  unique_filename_from_url :: "string option \<Rightarrow> string \<Rightarrow> string option"
  fopen_wb :: "string \<Rightarrow> bool"
  connection_create_stanza_id :: string
  connection_get_barejid :: string
  unassigned_state :: prof_jingle_state_t

definition iq_send_stanza :: "state \<Rightarrow> stanza \<Rightarrow> state" where
  "iq_send_stanza st iq = st\<lparr>sent := sent st @ [iq]\<rparr>"

subsection \<open>jingle.c\<close>

text \<open>
  \<^verbatim>\<open>_get_item_by_transport_id\<close>: the first content, in iteration order, whose transport
  sid is the one asked for, with its session and the key the session is stored under.
\<close>

fun get_item_by_transport_id ::
  "(string \<times> prof_jingle_session_t) list \<Rightarrow> string
     \<Rightarrow> (string \<times> prof_jingle_session_t \<times> prof_jingle_content_t) option" where
  "get_item_by_transport_id [] transport_id = None"
| "get_item_by_transport_id ((key, session) # rest) transport_id =
     (case find (\<lambda>content. transport_sid (content_transport content) = transport_id)
             (map snd (content_table session)) of
        Some content \<Rightarrow> Some (key, session, content)
      | None \<Rightarrow> get_item_by_transport_id rest transport_id)"

definition get_content_by_transport_id :: "state \<Rightarrow> string \<Rightarrow> prof_jingle_content_t option" where
  "get_content_by_transport_id st transport_id =
     map_option (\<lambda>(key, session, content). content)
       (get_item_by_transport_id (jingle_sessions st) transport_id)"

definition xmpp_jingle_new :: "string \<Rightarrow> string \<Rightarrow> stanza" where
  "xmpp_jingle_new action sid =
     (let jingle = xmpp_stanza_set_name xmpp_stanza_new ''jingle'';
          jingle = xmpp_stanza_set_ns jingle STANZA_NS_JINGLE;
          jingle = xmpp_stanza_set_attribute jingle ''sid'' sid
      in xmpp_stanza_set_attribute jingle ''action'' action)"

text \<open>
  \<^verbatim>\<open>_jingle_description_destroy\<close> (lines 728 to 738) frees the file info of a
  file-transfer description with \<^verbatim>\<open>_jingle_file_info_destroy\<close> and leaves the info of
  any other description allocated. This is what a pointer to the info has become
  afterwards.
\<close>

definition jingle_description_destroy :: "prof_jingle_description_t \<Rightarrow> file_pointer" where
  "jingle_description_destroy d =
     (if description_type d = PROF_JINGLE_DESCRIPTION_TYPE_FILETRANSFER then Freed
      else Orphan (description d))"

text \<open>
  \<^verbatim>\<open>_jingle_session_destroy\<close>, the destroy function of the table of sessions, for the
  session stored under \<open>key\<close>: \<^verbatim>\<open>g_hash_table_destroy(session->content_table)\<close> runs
  \<^verbatim>\<open>_jingle_content_destroy\<close> on every content, and that destroys its description. The
  tables keep their entries; what changes is where the pointers of the transfers lead
  that had borrowed from a content of this session. A pointer into the session that
  matches none of its contents led nowhere before and is \<open>Freed\<close> as well.
\<close>

definition pointer_after_destroy ::
  "string \<Rightarrow> prof_jingle_session_t \<Rightarrow> file_pointer \<Rightarrow> file_pointer" where
  "pointer_after_destroy key session p =
     (case p of
        Borrowed owner name \<Rightarrow>
          if owner = key then
            (case map_of (content_table session) name of
               None \<Rightarrow> Freed
             | Some content \<Rightarrow> jingle_description_destroy (content_description content))
          else Borrowed owner name
      | Orphan file_info \<Rightarrow> Orphan file_info
      | Freed \<Rightarrow> Freed)"

definition jingle_session_destroy :: "string \<Rightarrow> prof_jingle_session_t \<Rightarrow> state \<Rightarrow> state" where
  "jingle_session_destroy key session st =
     st\<lparr>ibb_sessions :=
          map (\<lambda>(sid, transfer).
                 (sid, transfer\<lparr>ibb_file := pointer_after_destroy key session (ibb_file transfer)\<rparr>))
            (ibb_sessions st)\<rparr>"

text \<open>
  \<^verbatim>\<open>g_hash_table_insert(jingle_sessions, strdup(sid), session)\<close>: a session already
  stored under the key is destroyed and the new one takes its place.
\<close>

definition jingle_sessions_insert :: "state \<Rightarrow> string \<Rightarrow> prof_jingle_session_t \<Rightarrow> state" where
  "jingle_sessions_insert st key session =
     (case map_of (jingle_sessions st) key of
        None \<Rightarrow> st
      | Some old \<Rightarrow> jingle_session_destroy key old st)
     \<lparr>jingle_sessions := AList.update key session (jingle_sessions st)\<rparr>"

text \<open>
  \<^verbatim>\<open>g_hash_table_remove(jingle_sessions, key)\<close>: the session stored under the key, if
  there is one, is destroyed and leaves the table.
\<close>

definition jingle_sessions_remove :: "state \<Rightarrow> string \<Rightarrow> state" where
  "jingle_sessions_remove st key =
     (case map_of (jingle_sessions st) key of
        None \<Rightarrow> st
      | Some old \<Rightarrow>
          (jingle_session_destroy key old st)
          \<lparr>jingle_sessions := AList.delete key (jingle_sessions st)\<rparr>)"

text \<open>
  \<^verbatim>\<open>_terminate_session\<close>: send session-terminate with the reason, then remove the session
  from the table, which destroys it and its contents.
\<close>

definition terminate_session :: "env \<Rightarrow> state \<Rightarrow> prof_jingle_session_t \<Rightarrow> string \<Rightarrow> state" where
  "terminate_session env st session reason =
     (let iq_stanza = xmpp_iq_new STANZA_TYPE_SET (Some (connection_create_stanza_id env));
          iq_stanza = xmpp_stanza_set_attribute iq_stanza ''to'' (initiator session);
          reason_name_stanza = xmpp_stanza_set_name xmpp_stanza_new reason;
          reason_stanza = xmpp_stanza_add_child
            (xmpp_stanza_set_name xmpp_stanza_new ''reason'') reason_name_stanza;
          jingle_stanza = xmpp_stanza_add_child
            (xmpp_jingle_new ''session-terminate'' (jingle_sid session)) reason_stanza;
          iq_stanza = xmpp_stanza_add_child iq_stanza jingle_stanza;
          st = iq_send_stanza st iq_stanza
      in jingle_sessions_remove st (jingle_sid session))"

text \<open>
  \<^verbatim>\<open>set_content_state_by_transport_id\<close>: the session is looked up and used unchecked, so
  an unknown transport id dereferences NULL. Every content of the session with that
  transport sid gets the state; when all contents are then finished the session is
  terminated with reason success.
\<close>

definition set_content_state_by_transport_id ::
  "env \<Rightarrow> state \<Rightarrow> string \<Rightarrow> prof_jingle_state_t \<Rightarrow> error + state" where
  "set_content_state_by_transport_id env st transport_id new_state =
     (case get_item_by_transport_id (jingle_sessions st) transport_id of
        None \<Rightarrow> Inl NullDereference
      | Some (key, session, found) \<Rightarrow>
          (let table = map (\<lambda>(content_key, content).
                 (content_key,
                  if transport_sid (content_transport content) = transport_id
                  then content\<lparr>content_state := new_state\<rparr> else content))
                 (content_table session);
               all_downloads_finished =
                 list_all (\<lambda>(content_key, content).
                   content_state content = PROF_JINGLE_STATE_TRANSFER_FINISHED) table;
               session = session\<lparr>content_table := table\<rparr>;
               st = st\<lparr>jingle_sessions := AList.update key session (jingle_sessions st)\<rparr>
           in Inr (if all_downloads_finished then terminate_session env st session ''success''
                   else st)))"

definition jingle_send_ack :: "string option \<Rightarrow> string \<Rightarrow> state \<Rightarrow> state" where
  "jingle_send_ack iq_id target st =
     iq_send_stanza st (xmpp_stanza_set_to (xmpp_iq_new STANZA_TYPE_RESULT iq_id) target)"

definition get_child_text :: "stanza \<Rightarrow> string \<Rightarrow> string option" where
  "get_child_text s child_name =
     (case xmpp_stanza_get_child_by_name s child_name of
        None \<Rightarrow> None
      | Some child \<Rightarrow> xmpp_stanza_get_text child)"

text \<open>
  \<^verbatim>\<open>_add_child_with_text\<close>: \<^verbatim>\<open>xmpp_stanza_set_text\<close> duplicates the text, measuring its
  length first, so a NULL text is a NULL dereference.
\<close>

definition add_child_with_text :: "stanza \<Rightarrow> string \<Rightarrow> string option \<Rightarrow> error + stanza" where
  "add_child_with_text parent child_name child_text =
     (case child_text of
        None \<Rightarrow> Inl NullDereference
      | Some t \<Rightarrow>
          Inr (xmpp_stanza_add_child parent
                 (xmpp_stanza_add_child (xmpp_stanza_set_name xmpp_stanza_new child_name) (Text t))))"

definition parse_content_creator :: "string option \<Rightarrow> prof_jingle_creator_t" where
  "parse_content_creator creator_raw =
     (case creator_raw of
        None \<Rightarrow> PROF_JINGLE_CREATOR_UNKNOWN
      | Some raw \<Rightarrow>
          if raw = ''initiator'' then PROF_JINGLE_CREATOR_INITIATOR
          else if raw = ''responder'' then PROF_JINGLE_CREATOR_RESPONDER
          else PROF_JINGLE_CREATOR_UNKNOWN)"

definition parse_content_senders :: "string option \<Rightarrow> prof_jingle_senders_t" where
  "parse_content_senders senders_raw =
     (case senders_raw of
        None \<Rightarrow> PROF_JINGLE_SENDERS_UNKNOWN
      | Some raw \<Rightarrow>
          if raw = ''both'' then PROF_JINGLE_SENDERS_BOTH
          else if raw = ''initiator'' then PROF_JINGLE_SENDERS_INITIATOR
          else if raw = ''responder'' then PROF_JINGLE_SENDERS_RESPONDER
          else if raw = ''none'' then PROF_JINGLE_SENDERS_NONE
          else PROF_JINGLE_SENDERS_UNKNOWN)"

fun stringify_senders :: "prof_jingle_senders_t \<Rightarrow> string" where
  "stringify_senders PROF_JINGLE_SENDERS_BOTH = ''both''"
| "stringify_senders PROF_JINGLE_SENDERS_INITIATOR = ''initiator''"
| "stringify_senders PROF_JINGLE_SENDERS_RESPONDER = ''responder''"
| "stringify_senders PROF_JINGLE_SENDERS_NONE = ''none''"
| "stringify_senders PROF_JINGLE_SENDERS_UNKNOWN = ''unknown''"

definition uint_to_str :: "32 word \<Rightarrow> string" where
  "uint_to_str v = printf_u v"

fun jingle_transport_type_to_ns :: "prof_jingle_transport_type_t \<Rightarrow> string" where
  "jingle_transport_type_to_ns PROF_JINGLE_TRANSPORT_TYPE_INBANDBYTESTREAM =
     STANZA_NS_JINGLE_TRANSPORTS_IBB"
| "jingle_transport_type_to_ns PROF_JINGLE_TRANSPORT_TYPE_SOCKS5 =
     STANZA_NS_JINGLE_TRANSPORTS_S5B"

fun jingle_description_type_to_ns :: "prof_jingle_description_type_t \<Rightarrow> string" where
  "jingle_description_type_to_ns PROF_JINGLE_DESCRIPTION_TYPE_FILETRANSFER = STANZA_NS_JINGLE_FT5"
| "jingle_description_type_to_ns PROF_JINGLE_DESCRIPTION_TYPE_RTP = STANZA_NS_JINGLE_RTP"

text \<open>
  One pass through the body of the \<^verbatim>\<open>while (content_stanza)\<close> loop of
  \<^verbatim>\<open>_handle_session_init\<close> (lines 264 to 374) ends in one of four ways: the loop moves
  to the next sibling without a content; it executes \<^verbatim>\<open>continue\<close> with
  \<^verbatim>\<open>content_stanza\<close> unchanged; it inserts a content and moves on; or it hands NULL to
  \<^verbatim>\<open>atoi\<close> or \<^verbatim>\<open>strdup\<close>.
\<close>

datatype iteration =
  Next_sibling | Same_stanza | Insert prof_jingle_content_t | Fault

definition content_iteration :: "env \<Rightarrow> stanza \<Rightarrow> iteration" where
  "content_iteration env content_stanza =
     (let tag = xmpp_stanza_get_name content_stanza in
      if tag = None \<or> tag \<noteq> Some ''content'' then Next_sibling
      else case xmpp_stanza_get_child_by_name content_stanza ''description'' of
        None \<Rightarrow> Same_stanza
      | Some description_stanza \<Rightarrow>
      (case xmpp_stanza_get_child_by_name content_stanza ''transport'' of
        None \<Rightarrow> Same_stanza
      | Some transport_stanza \<Rightarrow>
      (case xmpp_stanza_get_ns transport_stanza of
        None \<Rightarrow> Next_sibling
      | Some transport_ns \<Rightarrow>
      (case xmpp_stanza_get_ns description_stanza of
        None \<Rightarrow> Same_stanza
      | Some description_ns \<Rightarrow>
      if description_ns \<noteq> STANZA_NS_JINGLE_FT5 then Same_stanza
      else
      (case xmpp_stanza_get_attribute content_stanza ''name'' of
        None \<Rightarrow> Same_stanza
      | Some name \<Rightarrow>
      (let content_creator =
             parse_content_creator (xmpp_stanza_get_attribute content_stanza ''creator'')
       in
       if content_creator = PROF_JINGLE_CREATOR_UNKNOWN then Same_stanza
       else
       (let content_senders =
              parse_content_senders (xmpp_stanza_get_attribute content_stanza ''senders'')
        in
        case xmpp_stanza_get_child_by_name description_stanza ''file'' of
          None \<Rightarrow> Next_sibling
        | Some file_stanza \<Rightarrow>
        (let file_info = \<lparr>file_type = get_child_text file_stanza ''media-type'',
                          file_date = get_child_text file_stanza ''date'',
                          file_name = get_child_text file_stanza ''name'',
                          file_size = get_child_text file_stanza ''size'',
                          file_hash = get_child_text file_stanza ''hash''\<rparr>;
             new_description =
               \<lparr>description_type = PROF_JINGLE_DESCRIPTION_TYPE_FILETRANSFER,
                description = file_info\<rparr>
         in
         if transport_ns \<noteq> STANZA_NS_JINGLE_TRANSPORTS_IBB then Next_sibling
         else
         (case xmpp_stanza_get_attribute transport_stanza ''block-size'' of
            None \<Rightarrow> Fault
          | Some transport_block_size_raw \<Rightarrow>
          (case xmpp_stanza_get_attribute transport_stanza ''sid'' of
             None \<Rightarrow> Fault
           | Some sid \<Rightarrow>
               Insert \<lparr>content_name = name,
                       creator = content_creator,
                       senders = content_senders,
                       content_description = new_description,
                       content_transport =
                         \<lparr>transport_type = PROF_JINGLE_TRANSPORT_TYPE_INBANDBYTESTREAM,
                          transport_sid = sid,
                          blocksize = atoi_uint transport_block_size_raw\<rparr>,
                       content_state = unassigned_state env\<rparr>))))))))))"

text \<open>
  The loop itself. An iteration that ends in \<open>Same_stanza\<close> starts again on the same
  stanza with nothing changed, so the loop does not return: the value is \<open>None\<close>.
\<close>

partial_function (option) content_loop ::
  "env \<Rightarrow> stanza list \<Rightarrow> prof_jingle_session_t \<Rightarrow> (error + prof_jingle_session_t) option" where
  "content_loop env content_stanzas session =
     (case content_stanzas of
        [] \<Rightarrow> Some (Inr session)
      | content_stanza # rest \<Rightarrow>
          (case content_iteration env content_stanza of
             Next_sibling \<Rightarrow> content_loop env rest session
           | Same_stanza \<Rightarrow> content_loop env (content_stanza # rest) session
           | Fault \<Rightarrow> Some (Inl NullDereference)
           | Insert content \<Rightarrow>
               content_loop env rest
                 (session\<lparr>content_table :=
                    AList.update (content_name content) content (content_table session)\<rparr>)))"

text \<open>The children of the \<^verbatim>\<open>file\<close> element (lines 437 to 452).\<close>

definition add_file_children :: "stanza \<Rightarrow> prof_jingle_file_info_t \<Rightarrow> error + stanza" where
  "add_file_children file_stanza file_info =
     (case add_child_with_text file_stanza ''name'' (file_name file_info) of
        Inl e \<Rightarrow> Inl e
      | Inr s1 \<Rightarrow>
      (case add_child_with_text s1 ''media-type'' (file_type file_info) of
        Inl e \<Rightarrow> Inl e
      | Inr s2 \<Rightarrow>
      (case add_child_with_text s2 ''date'' (file_date file_info) of
        Inl e \<Rightarrow> Inl e
      | Inr s3 \<Rightarrow>
      (case add_child_with_text s3 ''size'' (file_size file_info) of
        Inl e \<Rightarrow> Inl e
      | Inr s4 \<Rightarrow>
          if file_hash file_info \<noteq> None
          then add_child_with_text s4 ''hash'' (file_hash file_info)
          else Inr s4))))"

text \<open>
  The body of the loop of \<^verbatim>\<open>_accept_session\<close> (lines 415 to 463): the \<^verbatim>\<open>content\<close>
  element built for one content of the session.
\<close>

definition accept_content :: "prof_jingle_content_t \<Rightarrow> error + stanza" where
  "accept_content content =
     (let block_size = uint_to_str (blocksize (content_transport content));
          content_stanza = xmpp_stanza_set_name xmpp_stanza_new ''content'';
          content_stanza = xmpp_stanza_set_attribute content_stanza ''creator'' ''initiator'';
          content_stanza = xmpp_stanza_set_attribute content_stanza ''senders''
            (stringify_senders (senders content));
          content_stanza = xmpp_stanza_set_attribute content_stanza ''name'' (content_name content);
          description_stanza = xmpp_stanza_set_name xmpp_stanza_new ''description'';
          description_stanza = xmpp_stanza_set_ns description_stanza
            (jingle_description_type_to_ns (description_type (content_description content)));
          description_data_stanza = xmpp_stanza_new
      in case (if description_type (content_description content)
                    = PROF_JINGLE_DESCRIPTION_TYPE_FILETRANSFER
               then add_file_children (xmpp_stanza_set_name description_data_stanza ''file'')
                      (description (content_description content))
               else Inr description_data_stanza) of
           Inl e \<Rightarrow> Inl e
         | Inr description_data_stanza \<Rightarrow>
             (let description_stanza =
                    xmpp_stanza_add_child description_stanza description_data_stanza;
                  transport_stanza = xmpp_stanza_set_name xmpp_stanza_new ''transport'';
                  transport_stanza = xmpp_stanza_set_ns transport_stanza
                    (jingle_transport_type_to_ns (transport_type (content_transport content)));
                  transport_stanza =
                    xmpp_stanza_set_attribute transport_stanza ''block-size'' block_size;
                  transport_stanza = xmpp_stanza_set_attribute transport_stanza ''sid''
                    (transport_sid (content_transport content));
                  content_stanza = xmpp_stanza_add_child content_stanza description_stanza;
                  content_stanza = xmpp_stanza_add_child content_stanza transport_stanza
              in Inr content_stanza))"

fun accept_contents :: "stanza \<Rightarrow> prof_jingle_content_t list \<Rightarrow> error + stanza" where
  "accept_contents jingle_stanza [] = Inr jingle_stanza"
| "accept_contents jingle_stanza (content # rest) =
     (case accept_content content of
        Inl e \<Rightarrow> Inl e
      | Inr content_stanza \<Rightarrow>
          accept_contents (xmpp_stanza_add_child jingle_stanza content_stanza) rest)"

text \<open>
  \<^verbatim>\<open>_accept_session\<close>: build and send session-accept, then set the state of the session,
  which the table holds by pointer, to accepted.
\<close>

definition accept_session :: "env \<Rightarrow> state \<Rightarrow> prof_jingle_session_t \<Rightarrow> error + state" where
  "accept_session env st session =
     (let my_jid = connection_get_barejid env;
          iq_stanza = xmpp_iq_new STANZA_TYPE_SET (Some (connection_create_stanza_id env));
          iq_stanza = xmpp_stanza_set_attribute iq_stanza ''to'' (initiator session);
          jingle_stanza = xmpp_jingle_new ''session-accept'' (jingle_sid session);
          jingle_stanza = xmpp_stanza_set_attribute jingle_stanza ''responder'' my_jid
      in case accept_contents jingle_stanza (map snd (content_table session)) of
           Inl e \<Rightarrow> Inl e
         | Inr jingle_stanza \<Rightarrow>
             (let iq_stanza = xmpp_stanza_add_child iq_stanza jingle_stanza;
                  st = iq_send_stanza st iq_stanza;
                  session = session\<lparr>session_state := PROF_JINGLE_STATE_ACCEPTED\<rparr>
              in Inr (st\<lparr>jingle_sessions :=
                           AList.update (jingle_sid session) session (jingle_sessions st)\<rparr>)))"

text \<open>
  \<^verbatim>\<open>_handle_session_init\<close>. The session is inserted under its sid before the contents
  are looked at, which destroys a session already stored there; the loop fills the
  content table of that same object, which the model writes back under the sid when the
  loop returns. A content that the loop displaces by a later one of the same name
  (line 372) belongs to the session allocated in this call, from which no transfer has
  borrowed yet.
\<close>

definition handle_session_init :: "env \<Rightarrow> state \<Rightarrow> stanza \<Rightarrow> (error + state) option" where
  "handle_session_init env st stanza =
     (let from_jid = xmpp_stanza_get_from stanza in
      case xmpp_stanza_get_child_by_name_and_ns stanza ''jingle'' STANZA_NS_JINGLE of
        None \<Rightarrow> Some (Inl NullDereference)
      | Some jingle \<Rightarrow>
      (case xmpp_stanza_get_attribute jingle ''sid'' of
        None \<Rightarrow> Some (Inr st)
      | Some sid \<Rightarrow>
      (case xmpp_stanza_get_attribute jingle ''initiator'' of
        None \<Rightarrow> Some (Inr st)
      | Some initiator_raw \<Rightarrow>
      (case from_jid of
        None \<Rightarrow> Some (Inr st)
      | Some sender \<Rightarrow>
      if initiator_raw \<noteq> sender then Some (Inr st)
      else
      (let content_stanza = xmpp_stanza_get_children jingle;
           st = jingle_send_ack (xmpp_stanza_get_id stanza) sender st;
           session = \<lparr>jingle_sid = sid, initiator = initiator_raw,
                      session_state = PROF_JINGLE_STATE_INITIATED, content_table = []\<rparr>;
           st = jingle_sessions_insert st sid session
       in
       if content_stanza = [] then Some (Inr (terminate_session env st session ''cancel''))
       else
       (case content_loop env content_stanza session of
          None \<Rightarrow> None
        | Some (Inl e) \<Rightarrow> Some (Inl e)
        | Some (Inr session) \<Rightarrow>
            Some (accept_session env
                   (st\<lparr>jingle_sessions := AList.update sid session (jingle_sessions st)\<rparr>)
                   session)))))))"

text \<open>\<^verbatim>\<open>_handle_terminate_session\<close>: the body is the comment \<^verbatim>\<open>// delete\<close> and
  \<^verbatim>\<open>return TRUE\<close>.\<close>

definition handle_terminate_session :: "state \<Rightarrow> stanza \<Rightarrow> bool \<times> state" where
  "handle_terminate_session st stanza = (True, st)"

text \<open>\<^verbatim>\<open>handle_jingle_iq\<close>: whether the stanza was handled, and the outcome.\<close>

definition handle_jingle_iq :: "env \<Rightarrow> state \<Rightarrow> stanza \<Rightarrow> (bool \<times> (error + state)) option" where
  "handle_jingle_iq env st stanza =
     (case xmpp_stanza_get_child_by_name_and_ns stanza ''jingle'' STANZA_NS_JINGLE of
        None \<Rightarrow> Some (False, Inr st)
      | Some jingle \<Rightarrow>
      (case xmpp_stanza_get_attribute jingle ''action'' of
        None \<Rightarrow> Some (False, Inr st)
      | Some action \<Rightarrow>
          if action = ''session-initiate''
          then map_option (\<lambda>r. (True, r)) (handle_session_init env st stanza)
          else if action = ''session-terminate''
          then Some (True, Inr (snd (handle_terminate_session st stanza)))
          else Some (True, Inr st)))"

subsection \<open>ibb.c\<close>

text \<open>
  Reading through the \<open>file\<close> pointer of a transfer. \<open>owning_content\<close> is the content
  whose file info a borrowed pointer leads to, as long as that content is in the table
  of its session; \<open>file_info_at\<close> is the info read, and \<open>None\<close> when the memory was
  freed.
\<close>

definition owning_content :: "state \<Rightarrow> file_pointer \<Rightarrow> prof_jingle_content_t option" where
  "owning_content st p =
     (case p of
        Borrowed owner name \<Rightarrow>
          (case map_of (jingle_sessions st) owner of
             None \<Rightarrow> None
           | Some session \<Rightarrow> map_of (content_table session) name)
      | Orphan file_info \<Rightarrow> None
      | Freed \<Rightarrow> None)"

definition file_info_at :: "state \<Rightarrow> file_pointer \<Rightarrow> prof_jingle_file_info_t option" where
  "file_info_at st p =
     (case p of
        Orphan file_info \<Rightarrow> Some file_info
      | _ \<Rightarrow> map_option (\<lambda>content. description (content_description content))
               (owning_content st p))"

text \<open>
  \<^verbatim>\<open>_ibb_session_destroy\<close>, the destroy function of the table of transfers: the name of
  the file is read through the borrowed pointer for the console (line 440), then the
  stream is closed if there is one.
\<close>

definition ibb_session_destroy :: "ibb_session_t \<Rightarrow> state \<Rightarrow> error + state" where
  "ibb_session_destroy session st =
     (case file_info_at st (ibb_file session) of
        None \<Rightarrow> Inl UseAfterFree
      | Some file_info \<Rightarrow>
      (case stream session of
        None \<Rightarrow> Inr st
      | Some f \<Rightarrow> Inr (st\<lparr>closed := closed st @ [f]\<rparr>)))"

text \<open>\<^verbatim>\<open>g_hash_table_remove(ibb_sessions, sid)\<close>, with the destroy function.\<close>

definition ibb_sessions_remove :: "state \<Rightarrow> string \<Rightarrow> error + state" where
  "ibb_sessions_remove st sid =
     (case map_of (ibb_sessions st) sid of
        None \<Rightarrow> Inr st
      | Some session \<Rightarrow>
      (case ibb_session_destroy session st of
        Inl e \<Rightarrow> Inl e
      | Inr st' \<Rightarrow> Inr (st'\<lparr>ibb_sessions := AList.delete sid (ibb_sessions st)\<rparr>)))"

definition ibb_send_ack :: "string option \<Rightarrow> string option \<Rightarrow> state \<Rightarrow> state" where
  "ibb_send_ack iq_id target st =
     (case iq_id of
        None \<Rightarrow> st
      | Some i \<Rightarrow>
      (case target of
        None \<Rightarrow> st
      | Some t \<Rightarrow>
          iq_send_stanza st (xmpp_stanza_set_to (xmpp_iq_new STANZA_TYPE_RESULT (Some i)) t)))"

definition send_error :: "string option \<Rightarrow> string option \<Rightarrow> string \<Rightarrow> string \<Rightarrow> state \<Rightarrow> state" where
  "send_error iq_id target error_type error_name st =
     (case iq_id of
        None \<Rightarrow> st
      | Some i \<Rightarrow>
      (case target of
        None \<Rightarrow> st
      | Some t \<Rightarrow>
          (let iq = xmpp_stanza_set_to (xmpp_iq_new STANZA_TYPE_ERROR (Some i)) t;
               error_stanza = xmpp_stanza_set_name xmpp_stanza_new STANZA_NAME_ERROR;
               error_stanza = xmpp_stanza_set_type error_stanza error_type;
               error_child = xmpp_stanza_set_name xmpp_stanza_new error_name;
               error_child = xmpp_stanza_set_ns error_child XMPP_NS_STANZAS_IETF;
               error_stanza = xmpp_stanza_add_child error_stanza error_child;
               iq = xmpp_stanza_add_child iq error_stanza
           in iq_send_stanza st iq)))"

text \<open>
  \<^verbatim>\<open>_send_close\<close>: nothing happens without an id or a target. Otherwise the close is
  sent; then, if the transfer is in the table, it is removed, which destroys it, and its
  content is marked finished.
\<close>

definition send_close :: "env \<Rightarrow> string option \<Rightarrow> string option \<Rightarrow> string \<Rightarrow> state \<Rightarrow> error + state" where
  "send_close env iq_id target sid st =
     (case iq_id of
        None \<Rightarrow> Inr st
      | Some i \<Rightarrow>
      (case target of
        None \<Rightarrow> Inr st
      | Some t \<Rightarrow>
          (let iq = xmpp_stanza_set_to (xmpp_iq_new STANZA_TYPE_SET (Some i)) t;
               close_stanza = xmpp_stanza_set_name xmpp_stanza_new ''close'';
               close_stanza = xmpp_stanza_set_ns close_stanza STANZA_NS_IBB;
               close_stanza = xmpp_stanza_set_attribute close_stanza ''sid'' sid;
               iq = xmpp_stanza_add_child iq close_stanza;
               st = iq_send_stanza st iq
           in case map_of (ibb_sessions st) sid of
                None \<Rightarrow> Inr st
              | Some session \<Rightarrow>
                  (case ibb_sessions_remove st sid of
                     Inl e \<Rightarrow> Inl e
                   | Inr st \<Rightarrow>
                       set_content_state_by_transport_id env st sid
                         PROF_JINGLE_STATE_TRANSFER_FINISHED))))"

definition get_file_location_by_file_name :: "env \<Rightarrow> string option \<Rightarrow> string option" where
  "get_file_location_by_file_name env name =
     (let downloads_dir = files_get_data_path env in
      if \<not> g_mkdir_with_parents env downloads_dir then None
      else unique_filename_from_url env name downloads_dir)"

text \<open>\<^verbatim>\<open>fopen(file_location, "wb")\<close>; no stream is opened for a NULL location.\<close>

definition fopen :: "env \<Rightarrow> string option \<Rightarrow> FILE option" where
  "fopen env file_location =
     (case file_location of
        None \<Rightarrow> None
      | Some p \<Rightarrow> if fopen_wb env p then Some \<lparr>path = p, written = []\<rparr> else None)"

definition convert_str_to_uint16 :: "string \<Rightarrow> 16 word option" where
  "convert_str_to_uint16 str =
     (case strtol str of (v, endptr, erange) \<Rightarrow>
        if erange \<or> endptr \<noteq> [] then None
        else if v < 0 \<or> v > 65535 then None
        else Some (word_of_int v))"

text \<open>
  \<^verbatim>\<open>_on_bytestream_open\<close>. A missing sid reaches \<^verbatim>\<open>g_str_hash\<close> as NULL.
  \<^verbatim>\<open>g_strcmp0\<close> compares the printed negotiated block size with the attribute as
  strings, a missing attribute being different from every string.
  \<^verbatim>\<open>get_content_by_transport_id(sid)\<close> is the content of the item found for the sid; the
  model takes the key of its session with it, to name the file info that the new
  transfer borrows.
\<close>

definition on_bytestream_open :: "env \<Rightarrow> state \<Rightarrow> stanza \<Rightarrow> error + state" where
  "on_bytestream_open env st stanza =
     (case xmpp_stanza_get_child_by_ns stanza STANZA_NS_IBB of
        None \<Rightarrow> Inl NullDereference
      | Some ibb_stanza \<Rightarrow>
      (let iq_id = xmpp_stanza_get_id stanza;
           from_jid = xmpp_stanza_get_from stanza
       in
       case xmpp_stanza_get_attribute ibb_stanza ''sid'' of
         None \<Rightarrow> Inl NullDereference
       | Some sid \<Rightarrow>
       if map_of (ibb_sessions st) sid \<noteq> None
       then Inr (send_error iq_id from_jid ''cancel'' ''not-acceptable'' st)
       else
       (let stanza_block_size = xmpp_stanza_get_attribute ibb_stanza ''block-size'' in
        case get_item_by_transport_id (jingle_sessions st) sid of
          None \<Rightarrow> Inr (send_error iq_id from_jid ''cancel'' ''not-acceptable'' st)
        | Some (key, owner, content) \<Rightarrow>
        if transport_type (content_transport content)
             \<noteq> PROF_JINGLE_TRANSPORT_TYPE_INBANDBYTESTREAM
        then Inr (send_error iq_id from_jid ''cancel'' ''not-acceptable'' st)
        else
        (let content_block_size = printf_u (blocksize (content_transport content)) in
         if Some content_block_size \<noteq> stanza_block_size
         then Inr (send_error iq_id from_jid ''modify'' ''resource-constraint'' st)
         else
         (let session = \<lparr>ibb_file = Borrowed key (content_name content),
                         seq = 0, stream = None\<rparr>;
              st = st\<lparr>ibb_sessions := AList.update sid session (ibb_sessions st)\<rparr>
          in Inr (ibb_send_ack iq_id from_jid st))))))"

text \<open>
  The second half of \<^verbatim>\<open>_on_bytestream_data\<close> (lines 269 to 292): the stream is checked,
  the file size is read through the borrowed pointer (line 276) and converted, the block
  is printed to the stream, the position is read back, the ack is sent and, once the
  position reaches the file size, the close.
\<close>

definition data_write ::
  "env \<Rightarrow> state \<Rightarrow> string option \<Rightarrow> string option \<Rightarrow> string \<Rightarrow> ibb_session_t \<Rightarrow> byte list
     \<Rightarrow> error + state" where
  "data_write env st iq_id from_jid sid session data =
     (case stream session of
        None \<Rightarrow> send_close env iq_id from_jid sid st
      | Some f \<Rightarrow>
      (case file_info_at st (ibb_file session) of
        None \<Rightarrow> Inl UseAfterFree
      | Some file_info \<Rightarrow>
      (case string_to_ul env (file_size file_info) of
        None \<Rightarrow> send_close env iq_id from_jid sid st
      | Some size_of_file \<Rightarrow>
          (let f = f\<lparr>written :=
                     written f @ fprintf_precision_s (int_of_gsize (length data)) data\<rparr>;
               st = st\<lparr>ibb_sessions :=
                        AList.update sid (session\<lparr>stream := Some f\<rparr>) (ibb_sessions st)\<rparr>;
               pos = length (written f);
               st = ibb_send_ack iq_id from_jid st
           in if pos \<ge> size_of_file then send_close env iq_id from_jid sid st else Inr st))))"

text \<open>
  \<^verbatim>\<open>_on_bytestream_data\<close>. The sequence number of the transfer is a \<^verbatim>\<open>uint16_t\<close>;
  in \<^verbatim>\<open>session->seq + 1 != seq\<close> both sides are promoted to \<^verbatim>\<open>int\<close>. The transfer
  is changed in place, so each change is written back to the table at once. For a first
  block the name of the file is read through the borrowed pointer (line 254).
\<close>

definition on_bytestream_data :: "env \<Rightarrow> state \<Rightarrow> stanza \<Rightarrow> error + state" where
  "on_bytestream_data env st stanza =
     (let iq_id = xmpp_stanza_get_id stanza;
          from_jid = xmpp_stanza_get_from stanza
      in
      case xmpp_stanza_get_child_by_name_and_ns stanza ''data'' XMPP_FEATURE_IBB of
        None \<Rightarrow> Inr st
      | Some data_stanza \<Rightarrow>
      (case xmpp_stanza_get_attribute data_stanza ''sid'' of
        None \<Rightarrow> Inr st
      | Some sid \<Rightarrow>
      (case (case xmpp_stanza_get_attribute data_stanza ''seq'' of
               None \<Rightarrow> None
             | Some seq_raw \<Rightarrow> convert_str_to_uint16 seq_raw) of
        None \<Rightarrow> Inr st
      | Some seq_no \<Rightarrow>
      (case g_base64_decode env (xmpp_stanza_get_text data_stanza) of
        None \<Rightarrow> Inr (send_error iq_id from_jid ''cancel'' ''bad-request'' st)
      | Some data \<Rightarrow>
      (case map_of (ibb_sessions st) sid of
        None \<Rightarrow> Inr (send_error iq_id from_jid ''cancel'' ''item-not-found'' st)
      | Some session \<Rightarrow>
      if seq_no = 0 then
        (if seq session \<noteq> 0 then send_close env iq_id from_jid sid st
         else
         (case file_info_at st (ibb_file session) of
            None \<Rightarrow> Inl UseAfterFree
          | Some file_info \<Rightarrow>
         (let file_location = get_file_location_by_file_name env (file_name file_info);
              session = session\<lparr>stream := fopen env file_location\<rparr>;
              st = st\<lparr>ibb_sessions := AList.update sid session (ibb_sessions st)\<rparr>
          in if stream session = None then send_close env iq_id from_jid sid st
             else data_write env st iq_id from_jid sid session data)))
      else if uint (seq session) + 1 \<noteq> uint seq_no then send_close env iq_id from_jid sid st
      else
        (let session = session\<lparr>seq := seq session + 1\<rparr>;
             st = st\<lparr>ibb_sessions := AList.update sid session (ibb_sessions st)\<rparr>
         in data_write env st iq_id from_jid sid session data))))))"

text \<open>\<^verbatim>\<open>_on_bytestream_close\<close>.\<close>

definition on_bytestream_close :: "env \<Rightarrow> state \<Rightarrow> stanza \<Rightarrow> error + state" where
  "on_bytestream_close env st stanza =
     (let iq_id = xmpp_stanza_get_id stanza;
          from_jid = xmpp_stanza_get_from stanza
      in
      case xmpp_stanza_get_child_by_name stanza ''close'' of
        None \<Rightarrow> Inl NullDereference
      | Some close_stanza \<Rightarrow>
      (case xmpp_stanza_get_attribute close_stanza ''sid'' of
        None \<Rightarrow> Inr (send_error iq_id from_jid ''cancel'' ''item-not-found'' st)
      | Some sid \<Rightarrow>
      (case map_of (ibb_sessions st) sid of
        None \<Rightarrow> Inr (send_error iq_id from_jid ''cancel'' ''item-not-found'' st)
      | Some session \<Rightarrow>
      (case ibb_sessions_remove st sid of
         Inl e \<Rightarrow> Inl e
       | Inr st \<Rightarrow>
      (case set_content_state_by_transport_id env st sid
              PROF_JINGLE_STATE_TRANSFER_FINISHED of
         Inl e \<Rightarrow> Inl e
       | Inr st \<Rightarrow> Inr (ibb_send_ack iq_id from_jid st))))))"

text \<open>\<^verbatim>\<open>handle_ibb\<close>: dispatch on the name of the first child in the IBB namespace.\<close>

definition handle_ibb :: "env \<Rightarrow> state \<Rightarrow> stanza \<Rightarrow> error + state" where
  "handle_ibb env st stanza =
     (case xmpp_stanza_get_child_by_ns stanza STANZA_NS_IBB of
        None \<Rightarrow> Inr st
      | Some ibb_stanza \<Rightarrow>
      (case xmpp_stanza_get_name ibb_stanza of
        None \<Rightarrow> Inr st
      | Some tag_name \<Rightarrow>
          if tag_name = ''open'' then on_bytestream_open env st stanza
          else if tag_name = ''data'' then on_bytestream_data env st stanza
          else if tag_name = ''close'' then on_bytestream_close env st stanza
          else Inr st))"

subsection \<open>An environment and stanzas to run the handlers on\<close>

text \<open>
  A base64 decoder in the manner of GLib's: characters outside the alphabet are skipped,
  every fourth accepted character yields up to three bytes, and a padding character
  among the last two withholds a byte. A NULL text decodes to NULL.
\<close>

definition base64_rank :: "char \<Rightarrow> nat option" where
  "base64_rank c =
     (let n = (of_char c :: nat) in
      if 65 \<le> n \<and> n \<le> 90 then Some (n - 65)
      else if 97 \<le> n \<and> n \<le> 122 then Some (n - 71)
      else if 48 \<le> n \<and> n \<le> 57 then Some (n + 4)
      else if n = 43 then Some 62
      else if n = 47 then Some 63
      else if n = 61 then Some 0
      else None)"

fun base64_decode_step :: "nat \<Rightarrow> nat \<Rightarrow> char \<Rightarrow> string \<Rightarrow> byte list" where
  "base64_decode_step v i last0 [] = []"
| "base64_decode_step v i last0 (c # cs) =
     (case base64_rank c of
        None \<Rightarrow> base64_decode_step v i last0 cs
      | Some r \<Rightarrow>
          if i = 3
          then [of_nat ((v * 64 + r) div 65536)]
               @ (if last0 \<noteq> CHR ''='' then [of_nat ((v * 64 + r) div 256)] else [])
               @ (if c \<noteq> CHR ''='' then [of_nat (v * 64 + r)] else [])
               @ base64_decode_step 0 0 c cs
          else base64_decode_step (v * 64 + r) (i + 1) c cs)"

definition example_string_to_ul :: "string option \<Rightarrow> nat option" where
  "example_string_to_ul str =
     (case str of
        None \<Rightarrow> None
      | Some s \<Rightarrow>
          (case strtol s of (v, endptr, erange) \<Rightarrow>
             if erange \<or> v < 0 then None
             else if endptr \<noteq> [] then None
             else Some (nat v)))"

definition example_env :: env where
  "example_env =
     \<lparr>g_base64_decode = map_option (base64_decode_step 0 0 (CHR 0x00)),
      string_to_ul = example_string_to_ul,
      files_get_data_path = ''/home/juliet/downloads'',
      g_mkdir_with_parents = (\<lambda>dir. True),
      unique_filename_from_url =
        (\<lambda>name dir. case name of None \<Rightarrow> None | Some n \<Rightarrow> Some (dir @ ''/'' @ n)),
      fopen_wb = (\<lambda>p. True),
      connection_create_stanza_id = ''prof_1'',
      connection_get_barejid = ''juliet@capulet.com'',
      unassigned_state = PROF_JINGLE_STATE_INITIATED\<rparr>"

text \<open>
  The same environment once \<^verbatim>\<open>kitten.jpg\<close> exists in the download directory: the
  unique file name gets a numbered suffix.
\<close>

definition example_env_later :: env where
  "example_env_later =
     example_env\<lparr>unique_filename_from_url :=
       (\<lambda>name dir. case name of None \<Rightarrow> None | Some n \<Rightarrow> Some (dir @ ''/'' @ n @ ''.1''))\<rparr>"

definition romeo :: string where
  "romeo = ''romeo@montague.net/orchard''"

definition example_iq :: "string \<Rightarrow> stanza \<Rightarrow> stanza" where
  "example_iq iq_id child =
     Tag (Some ''iq'') [(''type'', ''set''), (''id'', iq_id), (''from'', romeo)] [child]"

definition example_file :: "string \<Rightarrow> string \<Rightarrow> stanza" where
  "example_file name file_length =
     Tag (Some ''file'') []
       [Tag (Some ''media-type'') [] [Text ''image/jpeg''],
        Tag (Some ''date'') [] [Text ''2023-06-01T12:00:00Z''],
        Tag (Some ''name'') [] [Text name],
        Tag (Some ''size'') [] [Text file_length]]"

definition example_content ::
  "string \<Rightarrow> string \<Rightarrow> stanza \<Rightarrow> string \<Rightarrow> string \<Rightarrow> string \<Rightarrow> stanza" where
  "example_content name creator_raw file_stanza transport_ns sid block_size =
     Tag (Some ''content'') [(''creator'', creator_raw), (''senders'', ''initiator''), (''name'', name)]
       [Tag (Some ''description'') [(''xmlns'', STANZA_NS_JINGLE_FT5)] [file_stanza],
        Tag (Some ''transport'')
          [(''xmlns'', transport_ns), (''block-size'', block_size), (''sid'', sid)] []]"

definition example_jingle :: "string \<Rightarrow> string \<Rightarrow> string \<Rightarrow> stanza list \<Rightarrow> stanza" where
  "example_jingle iq_id action sid children =
     example_iq iq_id
       (Tag (Some ''jingle'')
          [(''xmlns'', STANZA_NS_JINGLE), (''action'', action), (''initiator'', romeo), (''sid'', sid)]
          children)"

definition example_open :: "string \<Rightarrow> string \<Rightarrow> string \<Rightarrow> stanza" where
  "example_open iq_id sid block_size =
     example_iq iq_id
       (Tag (Some ''open'')
          [(''xmlns'', STANZA_NS_IBB), (''block-size'', block_size), (''sid'', sid), (''stanza'', ''iq'')]
          [])"

definition example_data :: "string \<Rightarrow> string \<Rightarrow> string \<Rightarrow> string \<Rightarrow> stanza" where
  "example_data iq_id sid seq_raw text =
     example_iq iq_id
       (Tag (Some ''data'') [(''xmlns'', STANZA_NS_IBB), (''seq'', seq_raw), (''sid'', sid)]
          [Text text])"

definition empty_state :: state where
  "empty_state = \<lparr>jingle_sessions = [], ibb_sessions = [], sent = [], closed = []\<rparr>"

text \<open>
  The stanzas of one connection, handed to the handlers in order; the run ends at the
  first handler that faults or does not return.
\<close>

datatype delivery = To_jingle stanza | To_ibb stanza

fun deliver :: "env \<Rightarrow> state \<Rightarrow> delivery list \<Rightarrow> (error + state) option" where
  "deliver env st [] = Some (Inr st)"
| "deliver env st (To_jingle stanza # rest) =
     (case handle_jingle_iq env st stanza of
        None \<Rightarrow> None
      | Some (handled, Inl e) \<Rightarrow> Some (Inl e)
      | Some (handled, Inr st') \<Rightarrow> deliver env st' rest)"
| "deliver env st (To_ibb stanza # rest) =
     (case handle_ibb env st stanza of
        Inl e \<Rightarrow> Some (Inl e)
      | Inr st' \<Rightarrow> deliver env st' rest)"

declare content_loop.simps [code]

subsection \<open>The stanzas the handlers send, as they appear on the wire\<close>

definition ack_iq :: "string \<Rightarrow> string \<Rightarrow> stanza" where
  "ack_iq iq_id target =
     Tag (Some ''iq'') [(''type'', ''result''), (''id'', iq_id), (''to'', target)] []"

definition error_iq :: "string \<Rightarrow> string \<Rightarrow> string \<Rightarrow> string \<Rightarrow> stanza" where
  "error_iq iq_id target error_type condition =
     Tag (Some ''iq'') [(''type'', ''error''), (''id'', iq_id), (''to'', target)]
       [Tag (Some ''error'') [(''type'', error_type)]
          [Tag (Some condition) [(''xmlns'', ''urn:ietf:params:xml:ns:xmpp-stanzas'')] []]]"

definition close_iq :: "string \<Rightarrow> string \<Rightarrow> string \<Rightarrow> stanza" where
  "close_iq iq_id target sid =
     Tag (Some ''iq'') [(''type'', ''set''), (''id'', iq_id), (''to'', target)]
       [Tag (Some ''close'') [(''xmlns'', ''http://jabber.org/protocol/ibb''), (''sid'', sid)] []]"

definition jingle_iq :: "string \<Rightarrow> string \<Rightarrow> (string \<times> string) list \<Rightarrow> stanza list \<Rightarrow> stanza" where
  "jingle_iq iq_id target jingle_attributes children =
     Tag (Some ''iq'') [(''type'', ''set''), (''id'', iq_id), (''to'', target)]
       [Tag (Some ''jingle'') ((''xmlns'', ''urn:xmpp:jingle:1'') # jingle_attributes) children]"

definition terminate_iq :: "string \<Rightarrow> string \<Rightarrow> string \<Rightarrow> string \<Rightarrow> stanza" where
  "terminate_iq iq_id target sid reason =
     jingle_iq iq_id target [(''sid'', sid), (''action'', ''session-terminate'')]
       [Tag (Some ''reason'') [] [Tag (Some reason) [] []]]"

definition accept_iq :: "string \<Rightarrow> string \<Rightarrow> string \<Rightarrow> string \<Rightarrow> stanza list \<Rightarrow> stanza" where
  "accept_iq iq_id target sid responder contents =
     jingle_iq iq_id target
       [(''sid'', sid), (''action'', ''session-accept''), (''responder'', responder)] contents"

text \<open>
  What a data stanza can lead to. The block is rejected when the first stanza sent in
  answer is the close and the transfer has left the table. It is accepted when the first
  stanza sent is the ack and the transfer, with the block written, is either in the
  table or, the file being complete, closed.
\<close>

definition block_rejected :: "state \<Rightarrow> string \<Rightarrow> string \<Rightarrow> string \<Rightarrow> error + state \<Rightarrow> bool" where
  "block_rejected st iq_id target sid r =
     (case r of
        Inl e \<Rightarrow> False
      | Inr st' \<Rightarrow>
          map_of (ibb_sessions st') sid = None
          \<and> take (Suc (length (sent st))) (sent st') = sent st @ [close_iq iq_id target sid])"

definition block_accepted ::
  "state \<Rightarrow> string \<Rightarrow> string \<Rightarrow> string \<Rightarrow> ibb_session_t \<Rightarrow> FILE \<Rightarrow> error + state \<Rightarrow> bool" where
  "block_accepted st iq_id target sid session f r =
     (case r of
        Inl e \<Rightarrow> False
      | Inr st' \<Rightarrow>
          take (Suc (length (sent st))) (sent st') = sent st @ [ack_iq iq_id target]
          \<and> (map_of (ibb_sessions st') sid = Some (session\<lparr>stream := Some f\<rparr>)
              \<or> (map_of (ibb_sessions st') sid = None \<and> closed st' = closed st @ [f])))"

text \<open>The sequence number a data element carries, when it has one that converts.\<close>

definition data_seq :: "stanza \<Rightarrow> 16 word option" where
  "data_seq data_stanza =
     (case xmpp_stanza_get_attribute data_stanza ''seq'' of
        None \<Rightarrow> None
      | Some seq_raw \<Rightarrow> convert_str_to_uint16 seq_raw)"



subsection \<open>A file offer and the states it leads through\<close>

definition kitten_info :: prof_jingle_file_info_t where
  "kitten_info =
     \<lparr>file_type = Some ''image/jpeg'', file_date = Some ''2023-06-01T12:00:00Z'',
      file_name = Some ''kitten.jpg'', file_size = Some ''8192'', file_hash = None\<rparr>"

definition file_content ::
  "string \<Rightarrow> prof_jingle_creator_t \<Rightarrow> prof_jingle_file_info_t \<Rightarrow> string \<Rightarrow> prof_jingle_content_t" where
  "file_content name made_by info sid =
     \<lparr>content_name = name, creator = made_by, senders = PROF_JINGLE_SENDERS_INITIATOR,
      content_description =
        \<lparr>description_type = PROF_JINGLE_DESCRIPTION_TYPE_FILETRANSFER, description = info\<rparr>,
      content_transport =
        \<lparr>transport_type = PROF_JINGLE_TRANSPORT_TYPE_INBANDBYTESTREAM,
         transport_sid = sid, blocksize = 4096\<rparr>,
      content_state = PROF_JINGLE_STATE_INITIATED\<rparr>"

definition kitten_offer :: stanza where
  "kitten_offer =
     example_content ''offer-a'' ''initiator'' (example_file ''kitten.jpg'' ''8192'')
       STANZA_NS_JINGLE_TRANSPORTS_IBB ''t1'' ''4096''"

definition puppy_offer :: stanza where
  "puppy_offer =
     example_content ''offer-a'' ''initiator'' (example_file ''puppy.jpg'' ''100'')
       STANZA_NS_JINGLE_TRANSPORTS_IBB ''t2'' ''4096''"

definition socks5_offer :: stanza where
  "socks5_offer =
     example_content ''offer-a'' ''initiator'' (example_file ''kitten.jpg'' ''8192'')
       STANZA_NS_JINGLE_TRANSPORTS_S5B ''t1'' ''4096''"

definition responder_offer :: stanza where
  "responder_offer =
     example_content ''offer-a'' ''responder'' (example_file ''kitten.jpg'' ''8192'')
       STANZA_NS_JINGLE_TRANSPORTS_IBB ''t1'' ''4096''"

definition fresh_session :: "string \<Rightarrow> prof_jingle_session_t" where
  "fresh_session sid =
     \<lparr>jingle_sid = sid, initiator = romeo,
      session_state = PROF_JINGLE_STATE_INITIATED, content_table = []\<rparr>"

definition kitten_session :: prof_jingle_session_t where
  "kitten_session =
     \<lparr>jingle_sid = ''s1'', initiator = romeo, session_state = PROF_JINGLE_STATE_ACCEPTED,
      content_table =
        [(''offer-a'',
          file_content ''offer-a'' PROF_JINGLE_CREATOR_INITIATOR kitten_info ''t1'')]\<rparr>"

definition accept_content_wire :: "string \<Rightarrow> string \<Rightarrow> string \<Rightarrow> string \<Rightarrow> stanza" where
  "accept_content_wire name file file_length sid =
     Tag (Some ''content'')
       [(''creator'', ''initiator''), (''senders'', ''initiator''), (''name'', name)]
       [Tag (Some ''description'') [(''xmlns'', ''urn:xmpp:jingle:apps:file-transfer:5'')]
          [Tag (Some ''file'') []
             [Tag (Some ''name'') [] [Text file],
              Tag (Some ''media-type'') [] [Text ''image/jpeg''],
              Tag (Some ''date'') [] [Text ''2023-06-01T12:00:00Z''],
              Tag (Some ''size'') [] [Text file_length]]],
        Tag (Some ''transport'')
          [(''xmlns'', ''urn:xmpp:jingle:transports:ibb:1''),
           (''block-size'', ''4096''), (''sid'', sid)] []]"

definition kitten_accept :: stanza where
  "kitten_accept =
     accept_iq ''prof_1'' romeo ''s1'' ''juliet@capulet.com''
       [accept_content_wire ''offer-a'' ''kitten.jpg'' ''8192'' ''t1'']"

definition puppy_info :: prof_jingle_file_info_t where
  "puppy_info = kitten_info\<lparr>file_name := Some ''puppy.jpg'', file_size := Some ''100''\<rparr>"

text \<open>After the offer was accepted, after the open, and after a first block of three bytes.\<close>

definition state_accepted :: state where
  "state_accepted =
     \<lparr>jingle_sessions = [(''s1'', kitten_session)], ibb_sessions = [],
      sent = [ack_iq ''i1'' romeo, kitten_accept], closed = []\<rparr>"

definition transfer :: "16 word \<Rightarrow> FILE option \<Rightarrow> ibb_session_t" where
  "transfer n f = \<lparr>ibb_file = Borrowed ''s1'' ''offer-a'', seq = n, stream = f\<rparr>"

definition kitten_file :: "byte list \<Rightarrow> FILE" where
  "kitten_file bytes = \<lparr>path = ''/home/juliet/downloads/kitten.jpg'', written = bytes\<rparr>"

definition state_open :: state where
  "state_open =
     state_accepted\<lparr>ibb_sessions := [(''t1'', transfer 0 None)],
                    sent := sent state_accepted @ [ack_iq ''o1'' romeo]\<rparr>"

definition state_first_block :: state where
  "state_first_block =
     state_open\<lparr>ibb_sessions := [(''t1'', transfer 0 (Some (kitten_file [0x41, 0x42, 0x43])))],
                sent := sent state_open @ [ack_iq ''d0'' romeo]\<rparr>"

text \<open>
  After the first block, a second offer under the sid s1: the session holds the content
  of the new offer, and the transfer t1 is left with a pointer to the freed file info of
  the displaced one.
\<close>

definition state_reoffered :: state where
  "state_reoffered =
     state_first_block\<lparr>jingle_sessions :=
          [(''s1'', kitten_session\<lparr>content_table :=
              [(''offer-a'', file_content ''offer-a'' PROF_JINGLE_CREATOR_INITIATOR
                 puppy_info ''t2'')]\<rparr>)],
        ibb_sessions :=
          [(''t1'', (transfer 0 (Some (kitten_file [0x41, 0x42, 0x43])))\<lparr>ibb_file := Freed\<rparr>)],
        sent := sent state_first_block @ [ack_iq ''i2'' romeo,
          accept_iq ''prof_1'' romeo ''s1'' ''juliet@capulet.com''
            [accept_content_wire ''offer-a'' ''puppy.jpg'' ''100'' ''t2'']]\<rparr>"

text \<open>
  The first block followed by empty ones: the text A holds no complete group of four
  characters and decodes to no byte. After 65535 of them, numbered from 1, the last
  accepted block has the sequence number 65535.
\<close>

definition empty_block :: "nat \<Rightarrow> stanza" where
  "empty_block k = example_data ''e'' ''t1'' (string_of_nat k) ''A''"

definition empty_block_acks :: "nat \<Rightarrow> stanza list" where
  "empty_block_acks n = replicate n (ack_iq ''e'' romeo)"

definition state_after_empty_blocks :: "nat \<Rightarrow> state" where
  "state_after_empty_blocks n =
     state_first_block\<lparr>ibb_sessions :=
         [(''t1'', transfer (of_nat n) (Some (kitten_file [0x41, 0x42, 0x43])))],
       sent := sent state_first_block @ empty_block_acks n\<rparr>"

definition state_last_seq :: state where
  "state_last_seq = state_after_empty_blocks 65535"

text \<open>A content element with neither description nor transport.\<close>

definition bare_content :: stanza where
  "bare_content = Tag (Some ''content'') [(''creator'', ''initiator''), (''name'', ''offer-a'')] []"

section \<open>Properties\<close>

subsection \<open>Unfolding the model\<close>

lemmas stanza_defs = xmpp_stanza_new_def xmpp_stanza_get_ns_def xmpp_stanza_set_ns_def
  xmpp_stanza_get_id_def xmpp_stanza_get_from_def xmpp_stanza_set_to_def xmpp_stanza_set_type_def
  xmpp_stanza_get_child_by_name_def xmpp_stanza_get_child_by_ns_def
  xmpp_stanza_get_child_by_name_and_ns_def xmpp_iq_new_def
  STANZA_NS_JINGLE_def STANZA_NS_JINGLE_FT5_def STANZA_NS_JINGLE_RTP_def
  STANZA_NS_JINGLE_TRANSPORTS_IBB_def STANZA_NS_JINGLE_TRANSPORTS_S5B_def STANZA_NS_IBB_def
  XMPP_FEATURE_IBB_def XMPP_NS_STANZAS_IETF_def STANZA_TYPE_SET_def STANZA_TYPE_RESULT_def
  STANZA_TYPE_ERROR_def STANZA_NAME_ERROR_def

lemmas libc_defs = string_of_nat.simps isspace_def isdigit_def LONG_MAX_def LONG_MIN_def
  strtol_def atoi_uint_def
  printf_u_def fprintf_precision_s_def int_of_gsize_def

lemmas jingle_defs = get_content_by_transport_id_def xmpp_jingle_new_def
  jingle_description_destroy_def pointer_after_destroy_def jingle_session_destroy_def
  jingle_sessions_insert_def jingle_sessions_remove_def terminate_session_def
  set_content_state_by_transport_id_def jingle_send_ack_def get_child_text_def
  add_child_with_text_def parse_content_creator_def parse_content_senders_def uint_to_str_def
  content_iteration_def add_file_children_def accept_content_def accept_session_def
  handle_session_init_def handle_terminate_session_def handle_jingle_iq_def iq_send_stanza_def

lemmas ibb_defs = owning_content_def file_info_at_def
  ibb_session_destroy_def ibb_sessions_remove_def ibb_send_ack_def send_error_def
  send_close_def get_file_location_by_file_name_def fopen_def convert_str_to_uint16_def
  on_bytestream_open_def data_write_def on_bytestream_data_def on_bytestream_close_def
  handle_ibb_def

lemmas example_defs = base64_rank_def example_string_to_ul_def example_env_def
  example_env_later_def romeo_def
  example_iq_def example_file_def example_content_def example_jingle_def example_open_def
  example_data_def empty_state_def

lemmas wire_defs = ack_iq_def error_iq_def close_iq_def jingle_iq_def terminate_iq_def
  accept_iq_def

lemmas scenario_defs = kitten_info_def file_content_def kitten_offer_def puppy_offer_def
  socks5_offer_def responder_offer_def fresh_session_def kitten_session_def kitten_accept_def
  state_accepted_def transfer_def kitten_file_def state_open_def state_first_block_def
  state_last_seq_def state_after_empty_blocks_def state_reoffered_def

lemmas all_defs = accept_content_wire_def puppy_info_def stanza_defs libc_defs jingle_defs
  ibb_defs example_defs wire_defs scenario_defs
  content_loop.simps

subsection \<open>What the senders put on the wire\<close>

lemma ibb_send_ack_wire:
  "ibb_send_ack (Some i) (Some t) st = st\<lparr>sent := sent st @ [ack_iq i t]\<rparr>"
  by (simp add: ibb_send_ack_def iq_send_stanza_def ack_iq_def stanza_defs)

lemma send_error_wire:
  "send_error (Some i) (Some t) ty c st = st\<lparr>sent := sent st @ [error_iq i t ty c]\<rparr>"
  by (simp add: send_error_def iq_send_stanza_def error_iq_def stanza_defs)

lemma get_item_found:
  assumes "(key, session) \<in> set sessions"
    and "content \<in> set (map snd (content_table session))"
    and "transport_sid (content_transport content) = sid"
  shows "get_item_by_transport_id sessions sid \<noteq> None"
  using assms
proof (induction sessions)
  case Nil
  then show ?case by simp
next
  case (Cons entry rest)
  obtain k s where entry: "entry = (k, s)" by (cases entry)
  show ?case
  proof (cases "find (\<lambda>c. transport_sid (content_transport c) = sid) (map snd (content_table s))")
    case (Some c)
    with entry show ?thesis by simp
  next
    case None
    then have no: "\<forall>c \<in> set (map snd (content_table s)). transport_sid (content_transport c) \<noteq> sid"
      by (simp add: find_None_iff)
    with Cons.prems(2,3) have "session \<noteq> s" by auto
    with Cons.prems(1) entry have "(key, session) \<in> set rest" by auto
    from Cons.IH [OF this Cons.prems(2,3)] None entry show ?thesis by simp
  qed
qed

lemma owning_content_found:
  assumes "owning_content st p = Some content"
    and "transport_sid (content_transport content) = sid"
  shows "get_item_by_transport_id (jingle_sessions st) sid \<noteq> None"
proof -
  from assms(1) obtain key name session where
      s: "map_of (jingle_sessions st) key = Some session"
      and c: "map_of (content_table session) name = Some content"
    by (cases p) (auto simp: owning_content_def split: option.splits)
  from s have "(key, session) \<in> set (jingle_sessions st)" by (rule map_of_SomeD)
  moreover from c have "(name, content) \<in> set (content_table session)" by (rule map_of_SomeD)
  then have "content \<in> set (map snd (content_table session))" by force
  ultimately show ?thesis using assms(2) by (rule get_item_found)
qed

lemma file_info_at_owner:
  assumes "owning_content st p = Some content"
  shows "file_info_at st p = Some (description (content_description content))"
  using assms by (cases p) (simp_all add: file_info_at_def owning_content_def)

lemma owning_content_cong:
  assumes "jingle_sessions st' = jingle_sessions st"
  shows "owning_content st' p = owning_content st p"
  using assms by (cases p) (simp_all add: owning_content_def)

lemma jingle_session_destroy_frame:
  "fst ` set (ibb_sessions (jingle_session_destroy key session st)) = fst ` set (ibb_sessions st)"
  "closed (jingle_session_destroy key session st) = closed st"
  "sent (jingle_session_destroy key session st) = sent st"
  "jingle_sessions (jingle_session_destroy key session st) = jingle_sessions st"
  by (force simp: jingle_session_destroy_def)+

lemma jingle_sessions_remove_frame:
  "fst ` set (ibb_sessions (jingle_sessions_remove st key)) = fst ` set (ibb_sessions st)"
  "closed (jingle_sessions_remove st key) = closed st"
  "sent (jingle_sessions_remove st key) = sent st"
  by (simp_all add: jingle_sessions_remove_def jingle_session_destroy_frame split: option.splits)

lemma set_content_state_frame:
  assumes "get_item_by_transport_id (jingle_sessions st) sid \<noteq> None"
  shows "\<exists>st'. set_content_state_by_transport_id env st sid ns = Inr st'
           \<and> fst ` set (ibb_sessions st') = fst ` set (ibb_sessions st)
           \<and> closed st' = closed st
           \<and> take (length (sent st)) (sent st') = sent st"
  using assms
  by (auto simp: set_content_state_by_transport_id_def terminate_session_def iq_send_stanza_def
      jingle_sessions_remove_frame Let_def split: option.splits prod.splits)

lemma send_close_effect:
  assumes "map_of (ibb_sessions st) sid = Some session"
    and "owning_content st (ibb_file session) = Some content"
    and "transport_sid (content_transport content) = sid"
  shows "\<exists>st'. send_close env (Some i) (Some t) sid st = Inr st'
           \<and> map_of (ibb_sessions st') sid = None
           \<and> take (Suc (length (sent st))) (sent st') = sent st @ [close_iq i t sid]
           \<and> closed st' = (case stream session of None \<Rightarrow> closed st | Some f \<Rightarrow> closed st @ [f])"
proof -
  let ?st1 = "st\<lparr>sent := sent st @ [close_iq i t sid]\<rparr>"
  let ?st2 = "?st1\<lparr>ibb_sessions := AList.delete sid (ibb_sessions st),
      closed := (case stream session of None \<Rightarrow> closed st | Some f \<Rightarrow> closed st @ [f])\<rparr>"
  have "owning_content ?st1 (ibb_file session) = owning_content st (ibb_file session)"
    by (rule owning_content_cong) simp
  with assms(2) have "owning_content ?st1 (ibb_file session) = Some content" by simp
  then have "file_info_at ?st1 (ibb_file session) = Some (description (content_description content))"
    by (rule file_info_at_owner)
  then have removed: "ibb_sessions_remove ?st1 sid = Inr ?st2"
    using assms(1)
    by (simp add: ibb_sessions_remove_def ibb_session_destroy_def split: option.splits)
  have unfold: "send_close env (Some i) (Some t) sid st
      = set_content_state_by_transport_id env ?st2 sid PROF_JINGLE_STATE_TRANSFER_FINISHED"
    using assms(1) removed
    by (simp add: send_close_def iq_send_stanza_def close_iq_def stanza_defs)
  have ibb: "sid \<notin> fst ` set (ibb_sessions ?st2)"
    by (simp add: map_of_eq_None_iff [symmetric] delete_conv)
  from owning_content_found [OF assms(2,3)]
  have "get_item_by_transport_id (jingle_sessions ?st2) sid \<noteq> None" by simp
  from set_content_state_frame [OF this, of env PROF_JINGLE_STATE_TRANSFER_FINISHED]
  obtain st' where r: "set_content_state_by_transport_id env ?st2 sid PROF_JINGLE_STATE_TRANSFER_FINISHED = Inr st'"
    and f1: "fst ` set (ibb_sessions st') = fst ` set (ibb_sessions ?st2)"
    and f2: "closed st' = closed ?st2"
    and f3: "take (length (sent ?st2)) (sent st') = sent ?st2" by blast
  have "take (Suc (length (sent st))) (sent st') = sent st @ [close_iq i t sid]"
    using f3 by simp
  moreover from f1 ibb have "map_of (ibb_sessions st') sid = None"
    by (simp add: map_of_eq_None_iff)
  ultimately show ?thesis using r f2 unfold by simp
qed

lemma data_to_session:
  assumes "xmpp_stanza_get_child_by_name_and_ns stanza ''data'' XMPP_FEATURE_IBB = Some data_stanza"
    and "xmpp_stanza_get_attribute data_stanza ''sid'' = Some sid"
    and "data_seq data_stanza = Some n"
    and "g_base64_decode env (xmpp_stanza_get_text data_stanza) = Some data"
    and "map_of (ibb_sessions st) sid = Some session"
    and "xmpp_stanza_get_id stanza = Some i"
    and "xmpp_stanza_get_from stanza = Some t"
  shows "on_bytestream_data env st stanza =
    (if n = 0 then
       (if seq session \<noteq> 0 then send_close env (Some i) (Some t) sid st
        else
        (case file_info_at st (ibb_file session) of
           None \<Rightarrow> Inl UseAfterFree
         | Some file_info \<Rightarrow>
        (let file_location = get_file_location_by_file_name env (file_name file_info);
             session = session\<lparr>stream := fopen env file_location\<rparr>;
             st = st\<lparr>ibb_sessions := AList.update sid session (ibb_sessions st)\<rparr>
         in if stream session = None then send_close env (Some i) (Some t) sid st
            else data_write env st (Some i) (Some t) sid session data)))
     else if uint (seq session) + 1 \<noteq> uint n then send_close env (Some i) (Some t) sid st
     else
       (let session = session\<lparr>seq := seq session + 1\<rparr>;
            st = st\<lparr>ibb_sessions := AList.update sid session (ibb_sessions st)\<rparr>
        in data_write env st (Some i) (Some t) sid session data))"
  using assms by (simp add: on_bytestream_data_def data_seq_def Let_def split: option.splits)

lemma data_write_accepts:
  assumes "stream session = Some f"
    and "owning_content st (ibb_file session) = Some content"
    and "transport_sid (content_transport content) = sid"
    and "string_to_ul env (file_size (description (content_description content))) = Some full_size"
  shows "block_accepted st0 i t sid session
           (f\<lparr>written := written f @ fprintf_precision_s (int_of_gsize (length data)) data\<rparr>)
           (data_write env (st\<lparr>sent := sent st0, closed := closed st0\<rparr>) (Some i) (Some t) sid session data)"
proof -
  let ?f = "f\<lparr>written := written f @ fprintf_precision_s (int_of_gsize (length data)) data\<rparr>"
  let ?st = "st\<lparr>sent := sent st0, closed := closed st0\<rparr>"
  let ?st3 = "?st\<lparr>ibb_sessions := AList.update sid (session\<lparr>stream := Some ?f\<rparr>) (ibb_sessions st),
                   sent := sent st0 @ [ack_iq i t]\<rparr>"
  have "owning_content ?st (ibb_file session) = owning_content st (ibb_file session)"
    by (rule owning_content_cong) simp
  with assms(2) have "owning_content ?st (ibb_file session) = Some content" by simp
  then have info: "file_info_at ?st (ibb_file session)
      = Some (description (content_description content))"
    by (rule file_info_at_owner)
  have dw: "data_write env ?st (Some i) (Some t) sid session data
      = (if full_size \<le> length (written ?f) then send_close env (Some i) (Some t) sid ?st3 else Inr ?st3)"
    using assms(1,4) info by (simp add: data_write_def ibb_send_ack_wire Let_def)
  show ?thesis
  proof (cases "full_size \<le> length (written ?f)")
    case False
    with dw show ?thesis
      by (simp add: block_accepted_def update_conv')
  next
    case True
    have look: "map_of (ibb_sessions ?st3) sid = Some (session\<lparr>stream := Some ?f\<rparr>)"
      by (simp add: update_conv')
    have "owning_content ?st3 (ibb_file session) = owning_content st (ibb_file session)"
      by (rule owning_content_cong) simp
    with assms(2)
    have owner: "owning_content ?st3 (ibb_file (session\<lparr>stream := Some ?f\<rparr>)) = Some content"
      by simp
    from send_close_effect [OF look owner assms(3), of env i t]
    obtain st' where r: "send_close env (Some i) (Some t) sid ?st3 = Inr st'"
      and gone: "map_of (ibb_sessions st') sid = None"
      and snt: "take (Suc (length (sent ?st3))) (sent st') = sent ?st3 @ [close_iq i t sid]"
      and cl: "closed st' = closed ?st3 @ [?f]" by auto
    have "take (Suc (length (sent st0))) (take (Suc (length (sent ?st3))) (sent st'))
        = take (Suc (length (sent st0))) (sent ?st3 @ [close_iq i t sid])"
      using snt by simp
    then have "take (Suc (length (sent st0))) (sent st') = sent st0 @ [ack_iq i t]"
      by (simp add: min_def)
    with r gone cl dw True show ?thesis
      by (simp add: block_accepted_def)
  qed
qed

subsection \<open>Pointers after their owner was destroyed\<close>


lemma file_info_at_cong:
  assumes "jingle_sessions st' = jingle_sessions st"
  shows "file_info_at st' p = file_info_at st p"
  using assms by (cases p) (simp_all add: file_info_at_def owning_content_def)

lemma send_close_reads_freed:
  assumes "map_of (ibb_sessions st) sid = Some session"
    and "file_info_at st (ibb_file session) = None"
  shows "send_close env (Some i) (Some t) sid st = Inl UseAfterFree"
proof -
  let ?st1 = "st\<lparr>sent := sent st @ [close_iq i t sid]\<rparr>"
  have "file_info_at ?st1 (ibb_file session) = file_info_at st (ibb_file session)"
    by (rule file_info_at_cong) simp
  with assms(2) have "ibb_sessions_remove ?st1 sid = Inl UseAfterFree"
    using assms(1) by (simp add: ibb_sessions_remove_def ibb_session_destroy_def)
  then show ?thesis
    using assms(1)
    by (simp add: send_close_def iq_send_stanza_def close_iq_def stanza_defs)
qed

lemma get_item_SomeD:
  assumes "get_item_by_transport_id sessions sid = Some (key, session, content)"
  shows "(key, session) \<in> set sessions \<and> content \<in> set (map snd (content_table session))"
  using assms
proof (induction sessions)
  case Nil
  then show ?case by simp
next
  case (Cons entry rest)
  obtain k s where entry: "entry = (k, s)" by (cases entry)
  show ?case
  proof (cases "find (\<lambda>c. transport_sid (content_transport c) = sid) (map snd (content_table s))")
    case None
    with Cons.prems entry have "get_item_by_transport_id rest sid = Some (key, session, content)"
      by simp
    from Cons.IH [OF this] show ?thesis by simp
  next
    case (Some c)
    with Cons.prems entry have eq: "k = key" "s = session" "c = content" by simp_all
    from Some have "c \<in> set (map snd (content_table s))"
      by (auto simp: find_Some_iff)
    with eq entry show ?thesis by simp
  qed
qed

subsection \<open>The content loop\<close>



lemma content_loop_hangs:
  assumes "content_loop env cs s = Some y"
  shows "\<forall>c rest. cs = c # rest \<longrightarrow> content_iteration env c \<noteq> Same_stanza"
  using assms
proof (induct rule: content_loop.raw_induct [rotated 1, consumes 1])
  case (1 loop env cs s y)
  show ?case
  proof (intro allI impI)
    fix c rest
    assume cs: "cs = c # rest"
    show "content_iteration env c \<noteq> Same_stanza"
    proof
      assume same: "content_iteration env c = Same_stanza"
      with 1(2) cs have "loop env (c # rest) s = Some y" by simp
      from 1(1) [OF this] have "content_iteration env c \<noteq> Same_stanza" by blast
      with same show False by simp
    qed
  qed
qed

subsection \<open>The example states are reached from the empty state\<close>

lemma reach_accepted:
  "deliver example_env empty_state
     [To_jingle (example_jingle ''i1'' ''session-initiate'' ''s1'' [kitten_offer])]
   = Some (Inr state_accepted)"
  by (simp add: all_defs)

lemma reach_open:
  "deliver example_env state_accepted [To_ibb (example_open ''o1'' ''t1'' ''4096'')]
   = Some (Inr state_open)"
  by (simp add: all_defs)

lemma reach_first_block:
  "deliver example_env state_open [To_ibb (example_data ''d0'' ''t1'' ''0'' ''QUJD'')]
   = Some (Inr state_first_block)"
  by (simp add: all_defs)

subsection \<open>Decimal numbers printed and read back\<close>

lemma digit_char:
  assumes "d < 10"
  shows "isdigit (''0123456789'' ! d) \<and> (of_char (''0123456789'' ! d) :: nat) - 48 = d"
proof -
  from assms have "d = 0 \<or> d = 1 \<or> d = 2 \<or> d = 3 \<or> d = 4 \<or> d = 5 \<or> d = 6 \<or> d = 7 \<or> d = 8 \<or> d = 9"
    by arith
  then show ?thesis
    by (elim disjE) (simp_all add: isdigit_def)
qed

lemma string_of_nat_digits: "string_of_nat n \<noteq> [] \<and> list_all isdigit (string_of_nat n)"
proof (induct n rule: string_of_nat.induct)
  case (1 n)
  show ?case
  proof (cases "n < 10")
    case True
    then show ?thesis
      by (subst (1 2) string_of_nat.simps) (simp add: digit_char)
  next
    case False
    with 1 show ?thesis
      by (subst (1 2) string_of_nat.simps) (simp add: digit_char)
  qed
qed

lemma digits_value_snoc:
  "digits_value acc (xs @ [c]) = digits_value acc xs * 10 + (of_char c - 48)"
  by (induct xs arbitrary: acc) simp_all

lemma digits_value_string_of_nat: "digits_value 0 (string_of_nat n) = n"
proof (induct n rule: string_of_nat.induct)
  case (1 n)
  show ?case
  proof (cases "n < 10")
    case True
    then show ?thesis
      by (subst string_of_nat.simps) (simp add: digit_char)
  next
    case False
    with 1 have "digits_value 0 (string_of_nat (n div 10)) = n div 10" by simp
    with False show ?thesis
      by (subst string_of_nat.simps) (simp add: digits_value_snoc digit_char)
  qed
qed

lemma strtol_string_of_nat:
  assumes "int n \<le> LONG_MAX"
  shows "strtol (string_of_nat n) = (int n, [], False)"
proof -
  obtain c cs where s: "string_of_nat n = c # cs"
    using string_of_nat_digits [of n] by (cases "string_of_nat n") auto
  with string_of_nat_digits [of n] have c: "isdigit c" and all: "list_all isdigit (c # cs)"
    by simp_all
  from c have nospace: "\<not> isspace c" and nosign: "c \<noteq> CHR ''-''" "c \<noteq> CHR ''+''"
    by (auto simp: isdigit_def isspace_def)
  from all have tw: "takeWhile isdigit (c # cs) = c # cs" and dw: "dropWhile isdigit (c # cs) = []"
    by (simp_all add: list_all_iff)
  have val: "digits_value 0 (c # cs) = n"
    using digits_value_string_of_nat [of n] s by simp
  have "LONG_MIN \<le> int n" by (simp add: LONG_MIN_def)
  with assms show ?thesis
    unfolding strtol_def s Let_def using nospace nosign tw dw val by (simp del: digits_value.simps)
qed

lemma convert_string_of_nat:
  assumes "n \<le> 65535"
  shows "convert_str_to_uint16 (string_of_nat n) = Some (of_nat n)"
  using assms strtol_string_of_nat [of n]
  by (simp add: convert_str_to_uint16_def LONG_MAX_def)

lemma atoi_printf_u: "atoi_uint (printf_u w) = w"
proof -
  have "uint w < 2 ^ 32" using uint_lt2p [of w] by simp
  then have "int (unat w) \<le> LONG_MAX" by (simp add: LONG_MAX_def)
  from strtol_string_of_nat [OF this] show ?thesis
    by (simp add: atoi_uint_def printf_u_def)
qed

lemma senders_round_trip: "parse_content_senders (Some (stringify_senders x)) = x"
  by (cases x) (simp_all add: parse_content_senders_def)

subsection \<open>When the content loop returns\<close>

lemma content_loop_returns:
  assumes "list_all (\<lambda>c. content_iteration env c \<noteq> Same_stanza) cs"
  shows "content_loop env cs s \<noteq> None"
  using assms
proof (induct cs arbitrary: s)
  case Nil
  show ?case by (subst content_loop.simps) simp
next
  case (Cons c cs)
  then have rest: "\<And>s. content_loop env cs s \<noteq> None" by simp
  from Cons(2) have "content_iteration env c \<noteq> Same_stanza" by simp
  then show ?case
    using rest by (subst content_loop.simps) (cases "content_iteration env c"; simp)
qed

subsection \<open>The transfer can reach the sequence number 65535\<close>

lemma uint_seq: "n \<le> 65535 \<Longrightarrow> uint (of_nat n :: 16 word) = int n"
  by (simp add: uint_nat unat_of_nat)

lemma empty_block_step:
  assumes "Suc n \<le> 65535"
  shows "on_bytestream_data example_env (state_after_empty_blocks n) (empty_block (Suc n))
         = Inr (state_after_empty_blocks (Suc n))"
proof -
  let ?d = "Tag (Some ''data'')
      [(''xmlns'', STANZA_NS_IBB), (''seq'', string_of_nat (Suc n)), (''sid'', ''t1'')] [Text ''A'']"
  let ?session = "transfer (of_nat n) (Some (kitten_file [0x41, 0x42, 0x43]))"
  have seq: "data_seq ?d = Some (of_nat (Suc n))"
    using convert_string_of_nat [OF assms] by (simp add: data_seq_def)
  have nz: "(of_nat (Suc n) :: 16 word) \<noteq> 0"
  proof
    assume "(of_nat (Suc n) :: 16 word) = 0"
    then have "uint (of_nat (Suc n) :: 16 word) = 0" by simp
    with uint_seq [OF assms] show False by simp
  qed
  have nxt: "uint (of_nat n :: 16 word) + 1 = uint (of_nat (Suc n) :: 16 word)"
    using assms uint_seq [of n] uint_seq [of "Suc n"] by simp
  have step: "on_bytestream_data example_env (state_after_empty_blocks n) (empty_block (Suc n))
      = data_write example_env
          ((state_after_empty_blocks n)\<lparr>ibb_sessions :=
              AList.update ''t1'' (?session\<lparr>seq := seq ?session + 1\<rparr>)
                (ibb_sessions (state_after_empty_blocks n))\<rparr>)
          (Some ''e'') (Some romeo) ''t1'' (?session\<lparr>seq := seq ?session + 1\<rparr>) []"
    using data_to_session [where stanza = "empty_block (Suc n)" and data_stanza = ?d
        and sid = "''t1''" and n = "of_nat (Suc n)" and env = example_env and data = "[]"
        and st = "state_after_empty_blocks n" and session = ?session and i = "''e''" and t = romeo]
      seq nz nxt
    by (simp add: empty_block_def state_after_empty_blocks_def example_data_def example_iq_def
        example_env_def base64_rank_def transfer_def stanza_defs Let_def)
  show ?thesis
    unfolding step
    by (simp add: data_write_def state_after_empty_blocks_def transfer_def kitten_file_def
        file_info_at_def owning_content_def state_first_block_def state_open_def
        state_accepted_def kitten_session_def file_content_def
        kitten_info_def example_env_def example_string_to_ul_def libc_defs ibb_send_ack_wire
        empty_block_acks_def replicate_append_same add.commute)
qed

lemma deliver_append:
  "deliver env st (xs @ ys) =
     (case deliver env st xs of
        None \<Rightarrow> None
      | Some (Inl e) \<Rightarrow> Some (Inl e)
      | Some (Inr st') \<Rightarrow> deliver env st' ys)"
proof (induct xs arbitrary: st)
  case Nil
  show ?case by simp
next
  case (Cons x xs)
  show ?case
  proof (cases x)
    case (To_jingle stanza)
    with Cons show ?thesis
      by (simp split: option.splits prod.splits sum.splits)
  next
    case (To_ibb stanza)
    with Cons show ?thesis
      by (simp split: sum.splits)
  qed
qed

lemma handle_ibb_empty_block:
  "handle_ibb env st (empty_block k) = on_bytestream_data env st (empty_block k)"
  by (simp add: handle_ibb_def empty_block_def example_data_def example_iq_def stanza_defs)

lemma reach_after_empty_blocks:
  assumes "n \<le> 65535"
  shows "deliver example_env state_first_block (map (\<lambda>k. To_ibb (empty_block k)) [1..<Suc n])
         = Some (Inr (state_after_empty_blocks n))"
  using assms
proof (induct n)
  case 0
  show ?case by (simp add: state_after_empty_blocks_def state_first_block_def transfer_def
      empty_block_acks_def)
next
  case (Suc n)
  then have "deliver example_env state_first_block (map (\<lambda>k. To_ibb (empty_block k)) [1..<Suc n])
         = Some (Inr (state_after_empty_blocks n))" by simp
  moreover have "[1..<Suc (Suc n)] = [1..<Suc n] @ [Suc n]" by simp
  ultimately show ?case
    using empty_block_step [OF Suc(2)]
    by (simp only: map_append deliver_append list.map option.case sum.case deliver.simps
        handle_ibb_empty_block)
qed

lemma reach_last_seq:
  "deliver example_env state_first_block (map (\<lambda>k. To_ibb (empty_block k)) [1..<65536])
   = Some (Inr state_last_seq)"
  using reach_after_empty_blocks [of 65535] by (simp add: state_last_seq_def)

section \<open>The claims\<close>

text \<open>
  Claim C1: the position of the sink after a block has advanced by the decoded length of
  the block, whatever its bytes. The code prints the block with a string format. The
  text QQBC decodes to the three bytes 41 00 42; as the first block of a transfer it
  leaves one byte in the stream, the one before the NUL, so the position is 1 and not 3.
\<close>

theorem C1_nul_byte_cuts_the_block:
  "g_base64_decode example_env (Some ''QQBC'') = Some [0x41, 0x00, 0x42]
   \<and> on_bytestream_data example_env state_open (example_data ''d0'' ''t1'' ''0'' ''QQBC'')
       = Inr (state_open\<lparr>ibb_sessions := [(''t1'', transfer 0 (Some (kitten_file [0x41])))],
                         sent := sent state_open @ [ack_iq ''d0'' romeo]\<rparr>)"
  by (simp add: all_defs)

text \<open>
  Claim C2: a session-terminate for a live session removes the session and its transfers,
  so that a later data stanza of one of them is answered item-not-found. The handler
  does nothing. After a first block, the session-terminate leaves the state as it was,
  session and transfer included, and the next data stanza is written and acknowledged.
\<close>

theorem C2_terminate_removes_nothing:
  "handle_jingle_iq example_env state_first_block
     (example_jingle ''x1'' ''session-terminate'' ''s1''
        [Tag (Some ''reason'') [] [Tag (Some ''cancel'') [] []]])
     = Some (True, Inr state_first_block)
   \<and> map_of (jingle_sessions state_first_block) ''s1'' = Some kitten_session
   \<and> map_of (ibb_sessions state_first_block) ''t1''
       = Some (transfer 0 (Some (kitten_file [0x41, 0x42, 0x43])))
   \<and> on_bytestream_data example_env state_first_block (example_data ''d1'' ''t1'' ''1'' ''QUJD'')
       = Inr (state_first_block\<lparr>ibb_sessions :=
                [(''t1'', transfer 1 (Some (kitten_file [0x41, 0x42, 0x43, 0x41, 0x42, 0x43])))],
                sent := sent state_first_block @ [ack_iq ''d1'' romeo]\<rparr>)"
  by (simp add: all_defs)

text \<open>
  Claim C3: when no content of a session-initiate was parsed, the session is terminated
  with reason cancel, and only a session with a content is accepted. The code accepts
  after the loop without looking at the table. An offer whose only content names the
  SOCKS5 transport is skipped by the loop, and the session is accepted with no content:
  the stanzas sent are the ack and a session-accept without children.
\<close>

theorem C3_empty_content_map_is_accepted:
  "handle_session_init example_env empty_state
     (example_jingle ''i1'' ''session-initiate'' ''s1'' [socks5_offer])
   = Some (Inr \<lparr>jingle_sessions =
                   [(''s1'', (fresh_session ''s1'')\<lparr>session_state := PROF_JINGLE_STATE_ACCEPTED\<rparr>)],
                 ibb_sessions = [],
                 sent = [ack_iq ''i1'' romeo,
                         accept_iq ''prof_1'' romeo ''s1'' ''juliet@capulet.com'' []],
                 closed = []\<rparr>)"
  by (simp add: all_defs)

text \<open>
  Claim C4, as stated: sequence numbers wrap, so that after the block with seq 65535 the
  block with seq 0 is accepted. It is not: a transfer whose last accepted block had seq
  65535 (\<open>reach_last_seq\<close> leads there) answers seq 0 with a close and is removed; its
  session, having no other content, is then terminated with reason success.
\<close>

theorem C4_no_wraparound_counterexample:
  "on_bytestream_data example_env state_last_seq (example_data ''d9'' ''t1'' ''0'' ''QUJD'')
   = Inr (state_last_seq\<lparr>jingle_sessions := [], ibb_sessions := [],
            sent := sent state_last_seq
              @ [close_iq ''d9'' romeo ''t1'', terminate_iq ''prof_1'' romeo ''s1'' ''success''],
            closed := [kitten_file [0x41, 0x42, 0x43]]\<rparr>)"
  by (simp add: all_defs)

text \<open>
  Claim C4, amended: sequence numbers do not wrap. Take a data stanza with id and sender
  whose text decodes from base64, for a transfer with an open stream whose \<open>file\<close>
  pointer still leads to a content in the table of its session, that content having the
  sid of the transfer as its transport sid and a file size that converts; and let the
  last accepted block have seq n. The block with seq n + 1, as integers, is accepted:
  it is written and acknowledged, and the transfer now stands at n + 1. Any other seq,
  with the one exception of seq 0 at n = 0, is answered with a close and the transfer
  is removed. At n = 65535 no seq is n + 1, so every block is answered that way.
\<close>

theorem C4_sequence_without_wraparound:
  assumes "xmpp_stanza_get_child_by_name_and_ns stanza ''data'' XMPP_FEATURE_IBB = Some data_stanza"
    and "xmpp_stanza_get_attribute data_stanza ''sid'' = Some sid"
    and "data_seq data_stanza = Some n"
    and "g_base64_decode env (xmpp_stanza_get_text data_stanza) = Some data"
    and "map_of (ibb_sessions st) sid = Some session"
    and "xmpp_stanza_get_id stanza = Some i"
    and "xmpp_stanza_get_from stanza = Some t"
    and "stream session = Some f"
    and "owning_content st (ibb_file session) = Some content"
    and "transport_sid (content_transport content) = sid"
    and "string_to_ul env (file_size (description (content_description content))) = Some full_size"
  shows "(uint n = uint (seq session) + 1 \<longrightarrow>
            block_accepted st i t sid (session\<lparr>seq := n\<rparr>)
              (f\<lparr>written := written f @ fprintf_precision_s (int_of_gsize (length data)) data\<rparr>)
              (on_bytestream_data env st stanza))
       \<and> (uint n \<noteq> uint (seq session) + 1 \<and> (n \<noteq> 0 \<or> seq session \<noteq> 0) \<longrightarrow>
            block_rejected st i t sid (on_bytestream_data env st stanza))
       \<and> (seq session = 65535 \<longrightarrow>
            block_rejected st i t sid (on_bytestream_data env st stanza))"
proof -
  note step = data_to_session [OF assms(1-7)]
  from send_close_effect [OF assms(5) assms(9) assms(10), of env i t]
  have close: "block_rejected st i t sid (send_close env (Some i) (Some t) sid st)"
    by (auto simp: block_rejected_def)
  have accepted: "block_accepted st i t sid (session\<lparr>seq := n\<rparr>)
      (f\<lparr>written := written f @ fprintf_precision_s (int_of_gsize (length data)) data\<rparr>)
      (on_bytestream_data env st stanza)" if next_seq: "uint n = uint (seq session) + 1"
  proof -
    have "n = word_of_int (uint n)" by simp
    also have "\<dots> = word_of_int (uint (seq session) + 1)" using next_seq by simp
    also have "\<dots> = seq session + 1" by simp
    finally have n: "n = seq session + 1" .
    have "n \<noteq> 0"
    proof
      assume "n = 0"
      then have "uint (seq session) + 1 = 0" using next_seq by simp
      moreover have "0 \<le> uint (seq session)" by simp
      ultimately show False by linarith
    qed
    let ?session = "session\<lparr>seq := n\<rparr>"
    let ?st = "st\<lparr>ibb_sessions := AList.update sid ?session (ibb_sessions st)\<rparr>"
    have "on_bytestream_data env st stanza = data_write env ?st (Some i) (Some t) sid ?session data"
      using step next_seq \<open>n \<noteq> 0\<close> n by (simp add: Let_def)
    moreover have "stream ?session = Some f"
      using assms(8) by simp
    moreover have "owning_content ?st (ibb_file session) = owning_content st (ibb_file session)"
      by (rule owning_content_cong) simp
    with assms(9) have "owning_content ?st (ibb_file ?session) = Some content"
      by simp
    ultimately have "block_accepted st i t sid ?session
        (f\<lparr>written := written f @ fprintf_precision_s (int_of_gsize (length data)) data\<rparr>)
        (data_write env (?st\<lparr>sent := sent st, closed := closed st\<rparr>) (Some i) (Some t) sid ?session data)"
      using assms(10,11) by (intro data_write_accepts)
    with \<open>on_bytestream_data env st stanza = data_write env ?st (Some i) (Some t) sid ?session data\<close>
    show ?thesis by simp
  qed
  have rejected: "block_rejected st i t sid (on_bytestream_data env st stanza)"
    if "uint n \<noteq> uint (seq session) + 1" and "n \<noteq> 0 \<or> seq session \<noteq> 0"
    using step that close by (auto simp: Let_def)
  have last: "block_rejected st i t sid (on_bytestream_data env st stanza)"
    if top: "seq session = 65535"
  proof -
    have "uint n < 65536" using uint_lt2p [of n] by simp
    moreover have "uint (seq session) = 65535" using top by simp
    ultimately have "uint n \<noteq> uint (seq session) + 1" by simp
    moreover have "seq session \<noteq> 0" using top by simp
    ultimately show ?thesis using rejected by blast
  qed
  from accepted rejected last show ?thesis by blast
qed

text \<open>Claim C4, amended, at work: seq 1 and seq 2 after the first block, and seq 0 after 65535.\<close>

theorem C4_sequence_witness:
  "block_accepted state_first_block ''d1'' romeo ''t1'' (transfer 1 (Some (kitten_file [0x41, 0x42, 0x43])))
     (kitten_file [0x41, 0x42, 0x43, 0x41, 0x42, 0x43])
     (on_bytestream_data example_env state_first_block (example_data ''d1'' ''t1'' ''1'' ''QUJD''))
   \<and> block_rejected state_first_block ''d2'' romeo ''t1''
     (on_bytestream_data example_env state_first_block (example_data ''d2'' ''t1'' ''2'' ''QUJD''))
   \<and> block_rejected state_last_seq ''d9'' romeo ''t1''
     (on_bytestream_data example_env state_last_seq (example_data ''d9'' ''t1'' ''0'' ''QUJD''))"
proof -
  have a: "block_accepted state_first_block ''d1'' romeo ''t1'' (transfer 1 (Some (kitten_file [0x41, 0x42, 0x43])))
     (kitten_file [0x41, 0x42, 0x43, 0x41, 0x42, 0x43])
     (on_bytestream_data example_env state_first_block (example_data ''d1'' ''t1'' ''1'' ''QUJD''))"
    using C4_sequence_without_wraparound [where stanza = "example_data ''d1'' ''t1'' ''1'' ''QUJD''"
        and data_stanza = "Tag (Some ''data'') [(''xmlns'', STANZA_NS_IBB), (''seq'', ''1''), (''sid'', ''t1'')] [Text ''QUJD'']"
        and sid = "''t1''" and n = 1 and env = example_env and data = "[0x41, 0x42, 0x43]"
        and st = state_first_block and session = "transfer 0 (Some (kitten_file [0x41, 0x42, 0x43]))"
        and i = "''d1''" and t = romeo and f = "kitten_file [0x41, 0x42, 0x43]" and full_size = 8192
        and content = "file_content ''offer-a'' PROF_JINGLE_CREATOR_INITIATOR kitten_info ''t1''"]
    by (simp add: all_defs data_seq_def)
  have b: "block_rejected state_first_block ''d2'' romeo ''t1''
     (on_bytestream_data example_env state_first_block (example_data ''d2'' ''t1'' ''2'' ''QUJD''))"
    using C4_sequence_without_wraparound [where stanza = "example_data ''d2'' ''t1'' ''2'' ''QUJD''"
        and data_stanza = "Tag (Some ''data'') [(''xmlns'', STANZA_NS_IBB), (''seq'', ''2''), (''sid'', ''t1'')] [Text ''QUJD'']"
        and sid = "''t1''" and n = 2 and env = example_env and data = "[0x41, 0x42, 0x43]"
        and st = state_first_block and session = "transfer 0 (Some (kitten_file [0x41, 0x42, 0x43]))"
        and i = "''d2''" and t = romeo and f = "kitten_file [0x41, 0x42, 0x43]" and full_size = 8192
        and content = "file_content ''offer-a'' PROF_JINGLE_CREATOR_INITIATOR kitten_info ''t1''"]
    by (simp add: all_defs data_seq_def)
  have c: "block_rejected state_last_seq ''d9'' romeo ''t1''
     (on_bytestream_data example_env state_last_seq (example_data ''d9'' ''t1'' ''0'' ''QUJD''))"
    using C4_sequence_without_wraparound [where stanza = "example_data ''d9'' ''t1'' ''0'' ''QUJD''"
        and data_stanza = "Tag (Some ''data'') [(''xmlns'', STANZA_NS_IBB), (''seq'', ''0''), (''sid'', ''t1'')] [Text ''QUJD'']"
        and sid = "''t1''" and n = 0 and env = example_env and data = "[0x41, 0x42, 0x43]"
        and st = state_last_seq and session = "transfer 65535 (Some (kitten_file [0x41, 0x42, 0x43]))"
        and i = "''d9''" and t = romeo and f = "kitten_file [0x41, 0x42, 0x43]" and full_size = 8192
        and content = "file_content ''offer-a'' PROF_JINGLE_CREATOR_INITIATOR kitten_info ''t1''"]
    by (simp add: all_defs data_seq_def)
  from a b c show ?thesis by blast
qed

text \<open>
  Claim C5: a block with seq 0 is accepted only while no sink is open; with a sink open
  it is answered with a close and the transfer is destroyed. The code tests the sequence
  number of the transfer only, and that is still 0 after the first block. A second
  block with seq 0 is acknowledged and a second file is opened for it: the stream of
  the transfer is now the new one, holding the byte of the second block, and the first
  stream with its three bytes is neither closed nor referenced any more.
\<close>

theorem C5_second_seq_zero_reopens_sink:
  "on_bytestream_data example_env_later state_first_block
     (example_data ''d1'' ''t1'' ''0'' ''QQ=='')
   = Inr (state_first_block\<lparr>ibb_sessions :=
            [(''t1'', transfer 0
                (Some \<lparr>path = ''/home/juliet/downloads/kitten.jpg.1'', written = [0x41]\<rparr>))],
            sent := sent state_first_block @ [ack_iq ''d1'' romeo]\<rparr>)"
  by (simp add: all_defs)

text \<open>
  Claim C6, as stated: the block size of an open is compared with the negotiated one as
  a decimal integer, so 04096 matches 4096. It does not: the negotiated size is printed
  and compared as a string, and the open is refused with modify, resource-constraint.
\<close>

theorem C6_leading_zero_counterexample:
  "atoi_uint ''04096'' = 4096
   \<and> map_option (blocksize \<circ> content_transport)
         (get_content_by_transport_id state_accepted ''t1'') = Some 4096
   \<and> on_bytestream_open example_env state_accepted (example_open ''o1'' ''t1'' ''04096'')
     = Inr (state_accepted\<lparr>sent := sent state_accepted
              @ [error_iq ''o1'' romeo ''modify'' ''resource-constraint'']\<rparr>)"
  by (simp add: all_defs)

text \<open>
  Claim C6, amended: for an open with id and sender whose sid is not yet a transfer and
  resolves to a content with the in-band transport, a transfer with sequence number 0
  and no stream, borrowing the file info of that content, is created and the open
  acknowledged exactly when the block-size
  attribute is, character for character, the negotiated block size printed in decimal;
  for every other attribute, and for none, the answer is modify, resource-constraint
  and no transfer is created.
\<close>

theorem C6_block_size_compared_as_strings:
  assumes "xmpp_stanza_get_child_by_ns stanza STANZA_NS_IBB = Some ibb_stanza"
    and "xmpp_stanza_get_attribute ibb_stanza ''sid'' = Some sid"
    and "map_of (ibb_sessions st) sid = None"
    and "get_item_by_transport_id (jingle_sessions st) sid = Some (key, owner, content)"
    and "transport_type (content_transport content) = PROF_JINGLE_TRANSPORT_TYPE_INBANDBYTESTREAM"
    and "xmpp_stanza_get_id stanza = Some i"
    and "xmpp_stanza_get_from stanza = Some t"
  shows "on_bytestream_open env st stanza =
     Inr (if xmpp_stanza_get_attribute ibb_stanza ''block-size''
               = Some (printf_u (blocksize (content_transport content)))
          then st\<lparr>ibb_sessions :=
                    AList.update sid
                      \<lparr>ibb_file = Borrowed key (content_name content), seq = 0, stream = None\<rparr>
                      (ibb_sessions st),
                  sent := sent st @ [ack_iq i t]\<rparr>
          else st\<lparr>sent := sent st @ [error_iq i t ''modify'' ''resource-constraint'']\<rparr>)"
  using assms
  by (auto simp add: on_bytestream_open_def send_error_wire ibb_send_ack_wire)

text \<open>Claim C6, amended, at work: the negotiated 4096 is acknowledged, 4097 is refused.\<close>

theorem C6_block_size_witness:
  "on_bytestream_open example_env state_accepted (example_open ''o1'' ''t1'' ''4096'') = Inr state_open
   \<and> on_bytestream_open example_env state_accepted (example_open ''o2'' ''t1'' ''4097'')
     = Inr (state_accepted\<lparr>sent := sent state_accepted
              @ [error_iq ''o2'' romeo ''modify'' ''resource-constraint'']\<rparr>)"
proof -
  have a: "on_bytestream_open example_env state_accepted (example_open ''o1'' ''t1'' ''4096'') = Inr state_open"
    using C6_block_size_compared_as_strings [where stanza = "example_open ''o1'' ''t1'' ''4096''"
        and ibb_stanza = "Tag (Some ''open'') [(''xmlns'', STANZA_NS_IBB), (''block-size'', ''4096''), (''sid'', ''t1''), (''stanza'', ''iq'')] []"
        and sid = "''t1''" and st = state_accepted
        and key = "''s1''" and owner = kitten_session
        and content = "file_content ''offer-a'' PROF_JINGLE_CREATOR_INITIATOR kitten_info ''t1''"
        and i = "''o1''" and t = romeo and env = example_env]
    by (simp add: all_defs)
  have b: "on_bytestream_open example_env state_accepted (example_open ''o2'' ''t1'' ''4097'')
     = Inr (state_accepted\<lparr>sent := sent state_accepted
              @ [error_iq ''o2'' romeo ''modify'' ''resource-constraint'']\<rparr>)"
    using C6_block_size_compared_as_strings [where stanza = "example_open ''o2'' ''t1'' ''4097''"
        and ibb_stanza = "Tag (Some ''open'') [(''xmlns'', STANZA_NS_IBB), (''block-size'', ''4097''), (''sid'', ''t1''), (''stanza'', ''iq'')] []"
        and sid = "''t1''" and st = state_accepted
        and key = "''s1''" and owner = kitten_session
        and content = "file_content ''offer-a'' PROF_JINGLE_CREATOR_INITIATOR kitten_info ''t1''"
        and i = "''o2''" and t = romeo and env = example_env]
    by (simp add: all_defs)
  from a b show ?thesis by blast
qed

text \<open>
  Claim C7, as stated: a content whose name is already in the content table of the
  session is rejected and the earlier content stays. It does not stay: of two offers
  named offer-a, the table ends up holding the second.
\<close>

theorem C7_duplicate_name_counterexample:
  "content_loop example_env [kitten_offer, puppy_offer] (fresh_session ''s1'')
   = Some (Inr ((fresh_session ''s1'')\<lparr>content_table :=
        [(''offer-a'', file_content ''offer-a'' PROF_JINGLE_CREATOR_INITIATOR puppy_info ''t2'')]\<rparr>))"
  by (simp add: all_defs)

text \<open>
  Claim C7, amended: a content that parses and whose name is already in the content
  table replaces the earlier content under that name. The table keeps its names, and
  the loop goes on with the remaining children.
\<close>

theorem C7_duplicate_name_replaces:
  assumes "content_iteration env content_stanza = Insert content"
    and "map_of (content_table session) (content_name content) = Some earlier"
  shows "content_loop env (content_stanza # rest) session
           = content_loop env rest
               (session\<lparr>content_table :=
                  AList.update (content_name content) content (content_table session)\<rparr>)
       \<and> map_of (AList.update (content_name content) content (content_table session))
            (content_name content) = Some content
       \<and> map fst (AList.update (content_name content) content (content_table session))
           = map fst (content_table session)"
proof -
  have "content_name content \<in> fst ` set (content_table session)"
    using assms(2) by (metis map_of_eq_None_iff option.distinct(1))
  then have keys: "map fst (AList.update (content_name content) content (content_table session))
      = map fst (content_table session)"
    by (simp add: update_keys)
  have step: "content_loop env (content_stanza # rest) session
           = content_loop env rest
               (session\<lparr>content_table :=
                  AList.update (content_name content) content (content_table session)\<rparr>)"
    using assms(1) by (subst content_loop.simps) simp
  from step keys show ?thesis by (simp add: update_conv')
qed

text \<open>Claim C7, amended, at work: the second offer named offer-a replaces the first.\<close>

theorem C7_duplicate_name_witness:
  "content_loop example_env [puppy_offer]
     ((fresh_session ''s1'')\<lparr>content_table :=
        [(''offer-a'', file_content ''offer-a'' PROF_JINGLE_CREATOR_INITIATOR kitten_info ''t1'')]\<rparr>)
   = Some (Inr ((fresh_session ''s1'')\<lparr>content_table :=
        [(''offer-a'', file_content ''offer-a'' PROF_JINGLE_CREATOR_INITIATOR
            puppy_info ''t2'')]\<rparr>))"
  using C7_duplicate_name_replaces [where env = example_env and content_stanza = puppy_offer
      and content = "file_content ''offer-a'' PROF_JINGLE_CREATOR_INITIATOR
            puppy_info ''t2''"
      and session = "(fresh_session ''s1'')\<lparr>content_table :=
        [(''offer-a'', file_content ''offer-a'' PROF_JINGLE_CREATOR_INITIATOR kitten_info ''t1'')]\<rparr>"
      and earlier = "file_content ''offer-a'' PROF_JINGLE_CREATOR_INITIATOR kitten_info ''t1''"
      and rest = "[]"]
  by (simp add: all_defs)

text \<open>
  Claim C8: the contents of an emitted session-accept parse back to the stored contents,
  a creator responder coming back as responder. The creator attribute written is always
  the string initiator: a content stored with creator responder comes back, otherwise
  unchanged, with creator initiator.
\<close>

theorem C8_responder_creator_is_not_mirrored:
  "content_iteration example_env responder_offer
     = Insert (file_content ''offer-a'' PROF_JINGLE_CREATOR_RESPONDER kitten_info ''t1'')
   \<and> map_sum id (content_iteration example_env)
       (accept_content (file_content ''offer-a'' PROF_JINGLE_CREATOR_RESPONDER kitten_info ''t1''))
     = Inr (Insert (file_content ''offer-a'' PROF_JINGLE_CREATOR_INITIATOR kitten_info ''t1''))"
  by (simp add: all_defs)

text \<open>
  Claim C9, as stated: a data stanza with an unknown sid is answered item-not-found
  whether or not its seq converts and its text decodes. It is not: with a seq that does
  not convert nothing is sent at all, and without a text to decode the answer is
  bad-request.
\<close>

theorem C9_unknown_sid_counterexample:
  "map_of (ibb_sessions state_accepted) ''bogus'' = None
   \<and> on_bytestream_data example_env state_accepted (example_data ''d0'' ''bogus'' ''zero'' ''QUJD'')
     = Inr state_accepted
   \<and> on_bytestream_data example_env state_accepted
       (example_iq ''d1''
          (Tag (Some ''data'') [(''xmlns'', STANZA_NS_IBB), (''seq'', ''0''), (''sid'', ''bogus'')] []))
     = Inr (state_accepted\<lparr>sent := sent state_accepted
              @ [error_iq ''d1'' romeo ''cancel'' ''bad-request'']\<rparr>)"
  by (simp add: all_defs)

text \<open>
  Claim C9, amended: the sid is resolved after the seq and the text. For a data stanza
  with id and sender whose sid is not a transfer, nothing is sent when the seq is
  missing or does not convert; the answer is cancel, bad-request when the text does not
  decode; and it is cancel, item-not-found otherwise. In each case the sessions, the
  transfers and the streams are unchanged.
\<close>

theorem C9_unknown_sid_after_seq_and_decode:
  assumes "xmpp_stanza_get_child_by_name_and_ns stanza ''data'' XMPP_FEATURE_IBB = Some data_stanza"
    and "xmpp_stanza_get_attribute data_stanza ''sid'' = Some sid"
    and "map_of (ibb_sessions st) sid = None"
    and "xmpp_stanza_get_id stanza = Some i"
    and "xmpp_stanza_get_from stanza = Some t"
  shows "on_bytestream_data env st stanza =
     Inr (case data_seq data_stanza of
            None \<Rightarrow> st
          | Some n \<Rightarrow>
              (case g_base64_decode env (xmpp_stanza_get_text data_stanza) of
                 None \<Rightarrow> st\<lparr>sent := sent st @ [error_iq i t ''cancel'' ''bad-request'']\<rparr>
               | Some data \<Rightarrow> st\<lparr>sent := sent st @ [error_iq i t ''cancel'' ''item-not-found'']\<rparr>))"
  using assms
  by (simp add: on_bytestream_data_def data_seq_def send_error_wire split: option.splits)

text \<open>Claim C9, amended, at work: sid bogus with seq 0 and a text that decodes.\<close>

theorem C9_unknown_sid_witness:
  "on_bytestream_data example_env state_accepted (example_data ''d0'' ''bogus'' ''0'' ''QUJD'')
   = Inr (state_accepted\<lparr>sent := sent state_accepted
            @ [error_iq ''d0'' romeo ''cancel'' ''item-not-found'']\<rparr>)"
  using C9_unknown_sid_after_seq_and_decode [of "example_data ''d0'' ''bogus'' ''0'' ''QUJD''"
      "Tag (Some ''data'') [(''xmlns'', STANZA_NS_IBB), (''seq'', ''0''), (''sid'', ''bogus'')] [Text ''QUJD'']"
      "''bogus''" state_accepted "''d0''" romeo example_env]
  by (simp add: all_defs data_seq_def)




section \<open>Further properties of the two files\<close>

text \<open>A session-terminate changes nothing, whatever the state and the session it names.\<close>

theorem session_terminate_changes_nothing:
  assumes "xmpp_stanza_get_child_by_name_and_ns stanza ''jingle'' STANZA_NS_JINGLE = Some jingle"
    and "xmpp_stanza_get_attribute jingle ''action'' = Some ''session-terminate''"
  shows "handle_jingle_iq env st stanza = Some (True, Inr st)"
  using assms by (simp add: handle_jingle_iq_def handle_terminate_session_def)

theorem session_terminate_changes_nothing_example:
  "handle_jingle_iq example_env state_open (example_jingle ''x1'' ''session-terminate'' ''s1'' [])
   = Some (True, Inr state_open)"
  using session_terminate_changes_nothing [where stanza = "example_jingle ''x1'' ''session-terminate'' ''s1'' []"
      and jingle = "Tag (Some ''jingle'')
          [(''xmlns'', STANZA_NS_JINGLE), (''action'', ''session-terminate''), (''initiator'', romeo), (''sid'', ''s1'')] []"
      and env = example_env and st = state_open]
  by (simp add: example_jingle_def example_iq_def stanza_defs)

text \<open>
  The content loop returns whenever no iteration ends in a \<^verbatim>\<open>continue\<close> that leaves
  the stanza where it is.
\<close>

theorem content_loop_returns_without_continue:
  assumes "list_all (\<lambda>c. content_iteration env c \<noteq> Same_stanza) content_stanzas"
  shows "\<exists>outcome. content_loop env content_stanzas session = Some outcome"
  using content_loop_returns [OF assms, of session] by auto

theorem content_loop_returns_example:
  "list_all (\<lambda>c. content_iteration example_env c \<noteq> Same_stanza) [kitten_offer, socks5_offer]
   \<and> (\<exists>outcome. content_loop example_env [kitten_offer, socks5_offer] (fresh_session ''s1'')
         = Some outcome)"
proof -
  have a: "list_all (\<lambda>c. content_iteration example_env c \<noteq> Same_stanza) [kitten_offer, socks5_offer]"
    by (simp add: all_defs)
  from a content_loop_returns_without_continue [OF a, of "fresh_session ''s1''"]
  show ?thesis by blast
qed

text \<open>
  It does not return when one does: a content without a description, without a transport,
  with a description that has no namespace or another one than file transfer, without
  a name or without a valid creator keeps the loop on that content for ever.
\<close>

theorem content_loop_hangs_on_continue:
  assumes "content_iteration env content_stanza = Same_stanza"
  shows "content_loop env (content_stanza # rest) session = None"
proof (cases "content_loop env (content_stanza # rest) session")
  case None
  then show ?thesis .
next
  case (Some outcome)
  from content_loop_hangs [OF Some] assms show ?thesis by blast
qed

theorem content_loop_hangs_example:
  "content_iteration example_env bare_content = Same_stanza
   \<and> content_loop example_env [bare_content, kitten_offer] (fresh_session ''s1'') = None
   \<and> handle_session_init example_env empty_state
       (example_jingle ''i1'' ''session-initiate'' ''s1'' [bare_content, kitten_offer]) = None"
proof -
  have a: "content_iteration example_env bare_content = Same_stanza"
    by (simp add: bare_content_def content_iteration_def stanza_defs)
  from content_loop_hangs_on_continue [OF a, of "[kitten_offer]" "fresh_session ''s1''"]
  have b: "content_loop example_env [bare_content, kitten_offer] (fresh_session ''s1'') = None" .
  then have "handle_session_init example_env empty_state
       (example_jingle ''i1'' ''session-initiate'' ''s1'' [bare_content, kitten_offer]) = None"
    by (simp add: handle_session_init_def example_jingle_def example_iq_def romeo_def
        fresh_session_def stanza_defs)
  with a b show ?thesis by blast
qed

text \<open>
  Apart from the creator, a content of an emitted session-accept parses back to the
  stored content: for a content created by the initiator whose file has a name, a media
  type, a date and a size, the senders, the name, the file info, the transport sid and
  the block size all come back as stored.
\<close>

theorem session_accept_round_trip:
  assumes "creator c = PROF_JINGLE_CREATOR_INITIATOR"
    and "description_type (content_description c) = PROF_JINGLE_DESCRIPTION_TYPE_FILETRANSFER"
    and "transport_type (content_transport c) = PROF_JINGLE_TRANSPORT_TYPE_INBANDBYTESTREAM"
    and "file_name (description (content_description c)) = Some fname" and "fname \<noteq> []"
    and "file_type (description (content_description c)) = Some ftype" and "ftype \<noteq> []"
    and "file_date (description (content_description c)) = Some fdate" and "fdate \<noteq> []"
    and "file_size (description (content_description c)) = Some fsize" and "fsize \<noteq> []"
    and "file_hash (description (content_description c)) \<noteq> Some []"
  shows "map_sum id (content_iteration env) (accept_content c)
           = Inr (Insert (c\<lparr>content_state := unassigned_state env\<rparr>))"
proof -
  obtain nm cr sn ds tr cs where c: "c = \<lparr>content_name = nm, creator = cr, senders = sn,
      content_description = ds, content_transport = tr, content_state = cs\<rparr>"
    by (cases c) auto
  obtain dt fi where ds: "ds = \<lparr>description_type = dt, description = fi\<rparr>" by (cases ds) auto
  obtain tt ts bs where tr: "tr = \<lparr>transport_type = tt, transport_sid = ts, blocksize = bs\<rparr>"
    by (cases tr) auto
  obtain ft fd fn fs fh where fi: "fi = \<lparr>file_type = ft, file_date = fd, file_name = fn,
      file_size = fs, file_hash = fh\<rparr>" by (cases fi) auto
  show ?thesis
  proof (cases fh)
    case None
    with assms c ds tr fi show ?thesis
      by (simp add: accept_content_def add_file_children_def add_child_with_text_def
          content_iteration_def get_child_text_def parse_content_creator_def
          senders_round_trip uint_to_str_def atoi_printf_u stanza_defs)
  next
    case (Some h)
    with assms c ds tr fi show ?thesis
      by (simp add: accept_content_def add_file_children_def add_child_with_text_def
          content_iteration_def get_child_text_def parse_content_creator_def
          senders_round_trip uint_to_str_def atoi_printf_u stanza_defs)
  qed
qed

theorem session_accept_round_trip_example:
  "map_sum id (content_iteration example_env)
     (accept_content (file_content ''offer-a'' PROF_JINGLE_CREATOR_INITIATOR kitten_info ''t1''))
   = Inr (Insert (file_content ''offer-a'' PROF_JINGLE_CREATOR_INITIATOR kitten_info ''t1''))"
  using session_accept_round_trip [where c = "file_content ''offer-a'' PROF_JINGLE_CREATOR_INITIATOR kitten_info ''t1''"
      and env = example_env and fname = "''kitten.jpg''" and ftype = "''image/jpeg''"
      and fdate = "''2023-06-01T12:00:00Z''" and fsize = "''8192''"]
  by (simp add: file_content_def kitten_info_def example_env_def)

text \<open>
  A block without a NUL byte, of fewer than \<open>2 ^ 31\<close> bytes, reaches the stream whole.
\<close>

theorem block_without_nul_is_written_whole:
  assumes "0 \<notin> set data" and "length data < 2 ^ 31"
  shows "fprintf_precision_s (int_of_gsize (length data)) data = data"
proof -
  have "int_of_gsize (length data) = int (length data)"
    using assms(2) by (simp add: int_of_gsize_def signed_of_nat signed_take_bit_int_eq_self)
  moreover have "takeWhile (\<lambda>b. b \<noteq> 0) data = data"
    using assms(1) by (simp add: takeWhile_eq_all_conv) metis
  ultimately show ?thesis by (simp add: fprintf_precision_s_def)
qed

theorem block_without_nul_example:
  "fprintf_precision_s (int_of_gsize (length [0x41, 0x42, 0x43 :: byte])) [0x41, 0x42, 0x43]
   = [0x41, 0x42, 0x43]"
  using block_without_nul_is_written_whole [of "[0x41, 0x42, 0x43]"] by simp

text \<open>
  Once the file info a transfer borrowed is freed, every data stanza with id and sender
  for that transfer, whatever its sequence number, reads freed memory: for the name or
  the size of the file, or, on the way to a close, in the destroy function of the
  transfer.
\<close>

theorem data_after_owner_destroyed:
  assumes "xmpp_stanza_get_child_by_name_and_ns stanza ''data'' XMPP_FEATURE_IBB = Some data_stanza"
    and "xmpp_stanza_get_attribute data_stanza ''sid'' = Some sid"
    and "data_seq data_stanza = Some n"
    and "g_base64_decode env (xmpp_stanza_get_text data_stanza) = Some data"
    and "map_of (ibb_sessions st) sid = Some session"
    and "xmpp_stanza_get_id stanza = Some i"
    and "xmpp_stanza_get_from stanza = Some t"
    and "file_info_at st (ibb_file session) = None"
  shows "on_bytestream_data env st stanza = Inl UseAfterFree"
proof -
  note step = data_to_session [OF assms(1-7)]
  note close = send_close_reads_freed [OF assms(5) assms(8), of env i t]
  let ?session = "session\<lparr>seq := seq session + 1\<rparr>"
  let ?st = "st\<lparr>ibb_sessions := AList.update sid ?session (ibb_sessions st)\<rparr>"
  have info: "file_info_at ?st (ibb_file ?session) = None"
  proof -
    have "file_info_at ?st (ibb_file session) = file_info_at st (ibb_file session)"
      by (rule file_info_at_cong) simp
    with assms(8) show ?thesis by simp
  qed
  have look: "map_of (ibb_sessions ?st) sid = Some ?session"
    by (simp add: update_conv')
  have "data_write env ?st (Some i) (Some t) sid ?session data = Inl UseAfterFree"
    using info send_close_reads_freed [OF look info, of env i t]
    by (simp add: data_write_def split: option.splits)
  with step close assms(8) show ?thesis
    by (simp add: Let_def)
qed

theorem data_after_owner_destroyed_example:
  "file_info_at state_reoffered Freed = None
   \<and> on_bytestream_data example_env state_reoffered (example_data ''d2'' ''t1'' ''5'' ''QUJD'')
     = Inl UseAfterFree"
  using data_after_owner_destroyed [where stanza = "example_data ''d2'' ''t1'' ''5'' ''QUJD''"
      and data_stanza = "Tag (Some ''data'') [(''xmlns'', STANZA_NS_IBB), (''seq'', ''5''), (''sid'', ''t1'')] [Text ''QUJD'']"
      and sid = "''t1''" and n = 5 and env = example_env and data = "[0x41, 0x42, 0x43]"
      and st = state_reoffered
      and session = "(transfer 0 (Some (kitten_file [0x41, 0x42, 0x43])))\<lparr>ibb_file := Freed\<rparr>"
      and i = "''d2''" and t = romeo]
  by (simp add: all_defs data_seq_def state_reoffered_def)


text \<open>
  The pointer a new transfer is given leads to the content found for its sid, in every
  state whose tables have one entry for each key and hold every content under its own
  name.
\<close>

theorem borrowed_pointer_leads_to_content:
  assumes "get_item_by_transport_id (jingle_sessions st) sid = Some (key, owner, content)"
    and "distinct (map fst (jingle_sessions st))"
    and "list_all (\<lambda>(k, s). distinct (map fst (content_table s))
            \<and> list_all (\<lambda>(name, c). content_name c = name) (content_table s))
          (jingle_sessions st)"
  shows "owning_content st (Borrowed key (content_name content)) = Some content"
proof -
  from get_item_SomeD [OF assms(1)]
  have s: "(key, owner) \<in> set (jingle_sessions st)"
    and c: "content \<in> set (map snd (content_table owner))" by simp_all
  from assms(2) s have look: "map_of (jingle_sessions st) key = Some owner"
    by (rule map_of_is_SomeI)
  from assms(3) s have d: "distinct (map fst (content_table owner))"
    and names: "list_all (\<lambda>(name, c). content_name c = name) (content_table owner)"
    by (auto simp: list_all_iff)
  from c obtain name where entry: "(name, content) \<in> set (content_table owner)" by auto
  with names have "content_name content = name" by (auto simp: list_all_iff)
  with entry have "(content_name content, content) \<in> set (content_table owner)" by simp
  with d have "map_of (content_table owner) (content_name content) = Some content"
    by (rule map_of_is_SomeI)
  with look show ?thesis by (simp add: owning_content_def)
qed

theorem borrowed_pointer_example:
  "get_item_by_transport_id (jingle_sessions state_accepted) ''t1''
     = Some (''s1'', kitten_session,
             file_content ''offer-a'' PROF_JINGLE_CREATOR_INITIATOR kitten_info ''t1'')
   \<and> owning_content state_accepted (Borrowed ''s1'' ''offer-a'')
     = Some (file_content ''offer-a'' PROF_JINGLE_CREATOR_INITIATOR kitten_info ''t1'')"
  using borrowed_pointer_leads_to_content [where st = state_accepted and sid = "''t1''"
      and key = "''s1''" and owner = kitten_session
      and content = "file_content ''offer-a'' PROF_JINGLE_CREATOR_INITIATOR kitten_info ''t1''"]
  by (simp add: all_defs)

end
